theory Spec2Isabelle
  imports Complex_Main "HOL-Library.Multiset"
begin

section \<open>Python values\<close>

text \<open>
  The order store of \<^verbatim>\<open>src/model/order_model.py\<close> works on dynamically typed
  documents: dictionaries from field names to values that are numbers, strings, lists,
  nested dictionaries, datetimes or database identifiers. The embedding keeps that shape.

  A float is the IEEE double it denotes: a finite double by its exact rational value
  (\<open>-0.0\<close> and \<open>0.0\<close> are one value; they compare equal and both are falsy), or one
  of the three special values.
\<close>

datatype pyfloat = Fin rat | PosInf | NegInf | NaN

record datetime =
  year :: nat
  month :: nat
  day :: nat
  hour :: nat
  minute :: nat
  second :: nat
  microsecond :: nat

text \<open>
  A dictionary is an association list in insertion order, as Python's \<open>dict\<close> and a
  BSON document are; a well-formed dictionary has distinct keys. An \<open>ObjectId\<close> is
  represented by its canonical 24-digit hexadecimal form, the string \<open>str()\<close> returns.
\<close>

datatype pyval =
    PNone
  | PBool bool
  | PInt int
  | PFloat pyfloat
  | PStr string
  | PList "pyval list"
  | PDict "(string \<times> pyval) list"
  | PDatetime datetime
  | PObjectId string

type_synonym pydict = "(string \<times> pyval) list"

text \<open>The exceptions the module can raise or let through.\<close>

datatype error =
    RuntimeError string
  | ValueError
  | TypeError
  | OverflowError
  | AttributeError
  | DuplicateKeyError

text \<open>Numbers held in the accumulators of the daily summary: \<open>int\<close> or \<open>float\<close>.\<close>

datatype num = NInt int | NFloat pyfloat

text \<open>
  What the module takes from the Python runtime and from the \<open>bson\<close> package, whose
  code is not part of the repository, is a parameter of the model:
  \<^item> \<open>float_of_str\<close>: \<open>float(s)\<close> on a string, \<open>None\<close> for \<open>ValueError\<close>;
  \<^item> \<open>float_of_bigint\<close>: \<open>float(i)\<close> on an integer beyond \<open>2^53\<close>, where the
    conversion rounds, \<open>None\<close> for \<open>OverflowError\<close>;
  \<^item> \<open>float_add\<close>, \<open>float_mul\<close>: \<open>+\<close> and \<open>*\<close> on floats, which round;
  \<^item> \<open>object_id\<close>: \<open>ObjectId(s)\<close> on a string, \<open>None\<close> for \<open>InvalidId\<close>;
  \<^item> \<open>str_other\<close>: \<open>str(v)\<close> on a value that is neither a string nor an identifier.
\<close>

record runtime =
  float_of_str :: "string \<Rightarrow> pyfloat option"
  float_of_bigint :: "int \<Rightarrow> pyfloat option"
  float_add :: "pyfloat \<Rightarrow> pyfloat \<Rightarrow> pyfloat"
  float_mul :: "pyfloat \<Rightarrow> pyfloat \<Rightarrow> pyfloat"
  object_id :: "string \<Rightarrow> string option"
  str_other :: "pyval \<Rightarrow> string"

subsection \<open>Dictionaries\<close>

text \<open>\<open>d.get(k)\<close> is \<^term>\<open>map_of d k\<close>; \<open>d[k] = v\<close> keeps the position of an
  existing key and appends a new one.\<close>

fun dict_set :: "pydict \<Rightarrow> string \<Rightarrow> pyval \<Rightarrow> pydict" where
  "dict_set [] k v = [(k, v)]"
| "dict_set ((k', v') # d) k v =
     (if k' = k then (k, v) # d else (k', v') # dict_set d k v)"

definition get_default :: "pydict \<Rightarrow> string \<Rightarrow> pyval \<Rightarrow> pyval" where
  "get_default d k dflt = (case map_of d k of None \<Rightarrow> dflt | Some v \<Rightarrow> v)"

subsection \<open>Truthiness, \<open>or\<close>, \<open>in\<close>, iteration\<close>

fun truthy :: "pyval \<Rightarrow> bool" where
  "truthy PNone = False"
| "truthy (PBool b) = b"
| "truthy (PInt i) = (i \<noteq> 0)"
| "truthy (PFloat f) = (f \<noteq> Fin 0)"
| "truthy (PStr s) = (s \<noteq> [])"
| "truthy (PList xs) = (xs \<noteq> [])"
| "truthy (PDict d) = (d \<noteq> [])"
| "truthy (PDatetime t) = True"
| "truthy (PObjectId h) = True"

definition py_or :: "pyval \<Rightarrow> pyval \<Rightarrow> pyval" where
  "py_or a b = (if truthy a then a else b)"

fun is_substr :: "string \<Rightarrow> string \<Rightarrow> bool" where
  "is_substr k [] = (k = [])"
| "is_substr k (c # s) = (take (length k) (c # s) = k \<or> is_substr k s)"

text \<open>\<open>for x in v\<close>: a list yields its elements, a dictionary its keys, a string its
  characters; anything else is not iterable.\<close>

fun py_iter :: "pyval \<Rightarrow> error + pyval list" where
  "py_iter (PList xs) = Inr xs"
| "py_iter (PDict d) = Inr (map (\<lambda>kv. PStr (fst kv)) d)"
| "py_iter (PStr s) = Inr (map (\<lambda>c. PStr [c]) s)"
| "py_iter _ = Inl TypeError"

subsection \<open>Conversion to float\<close>

definition int_to_float :: "runtime \<Rightarrow> int \<Rightarrow> error + pyfloat" where
  "int_to_float rt i =
     (if \<bar>i\<bar> \<le> 2 ^ 53 then Inr (Fin (of_int i))
      else (case float_of_bigint rt i of None \<Rightarrow> Inl OverflowError | Some f \<Rightarrow> Inr f))"

fun float_py :: "runtime \<Rightarrow> pyval \<Rightarrow> error + pyfloat" where
  "float_py rt (PFloat f) = Inr f"
| "float_py rt (PInt i) = int_to_float rt i"
| "float_py rt (PBool b) = Inr (Fin (if b then 1 else 0))"
| "float_py rt (PStr s) =
     (case float_of_str rt s of None \<Rightarrow> Inl ValueError | Some f \<Rightarrow> Inr f)"
| "float_py rt _ = Inl TypeError"

text \<open>The handler \<^verbatim>\<open>except (ValueError, TypeError)\<close> catches these two and nothing else.\<close>

definition caught :: "error \<Rightarrow> bool" where
  "caught e = (e = ValueError \<or> e = TypeError)"

text \<open>
  \<^verbatim>\<open>try: x = float(v or 0)  except (ValueError, TypeError): x = 0\<close>,
  the pattern of lines 64-66, 72-74, 77-79, 140-142, 147-149, 225-227, 237-239 and
  242-244. The handler's \<open>0\<close> is an \<open>int\<close>.
\<close>

definition coerce_number :: "runtime \<Rightarrow> pyval \<Rightarrow> error + num" where
  "coerce_number rt v =
     (case float_py rt (py_or v (PInt 0)) of
        Inr f \<Rightarrow> Inr (NFloat f)
      | Inl e \<Rightarrow> if caught e then Inr (NInt 0) else Inl e)"

fun num_val :: "num \<Rightarrow> pyval" where
  "num_val (NInt i) = PInt i"
| "num_val (NFloat f) = PFloat f"

text \<open>
  \<^verbatim>\<open>try:
      if k in d: d[k] = float(d.get(k, 0) or 0)
  except (ValueError, TypeError):
      d[k] = 0\<close>
  on a dictionary \<open>d\<close>.
\<close>

definition coerce_field :: "runtime \<Rightarrow> string \<Rightarrow> pydict \<Rightarrow> error + pydict" where
  "coerce_field rt k d =
     (case map_of d k of
        None \<Rightarrow> Inr d
      | Some v \<Rightarrow>
          (case coerce_number rt v of
             Inl e \<Rightarrow> Inl e
           | Inr x \<Rightarrow> Inr (dict_set d k (num_val x))))"

section \<open>\<open>place_order\<close>\<close>

subsection \<open>Formatting the clock\<close>

definition digit_char :: "nat \<Rightarrow> char" where
  "digit_char n = ''0123456789'' ! (n mod 10)"

definition pad2 :: "nat \<Rightarrow> string" where
  "pad2 n = [digit_char (n div 10), digit_char n]"

definition pad4 :: "nat \<Rightarrow> string" where
  "pad4 n = [digit_char (n div 1000), digit_char (n div 100), digit_char (n div 10), digit_char n]"

text \<open>\<^verbatim>\<open>strftime("%Y-%m-%d")\<close> and \<^verbatim>\<open>strftime("%Y-%m-%d %H:%M:%S")\<close>, for the years
  1000 to 9999 (the padding of earlier years depends on the platform).\<close>

definition strftime_date :: "datetime \<Rightarrow> string" where
  "strftime_date t = pad4 (year t) @ ''-'' @ pad2 (month t) @ ''-'' @ pad2 (day t)"

definition strftime_datetime :: "datetime \<Rightarrow> string" where
  "strftime_datetime t =
     strftime_date t @ '' '' @ pad2 (hour t) @ '':'' @ pad2 (minute t) @ '':'' @ pad2 (second t)"

subsection \<open>Coercing the line items (lines 68-79)\<close>

text \<open>
  One \<open>try\<close> block of the loop body, on an item of any type. On a dictionary it is
  \<^const>\<open>coerce_field\<close>. On a string or a list \<open>k in item\<close> is a substring or a
  membership test, and when it holds \<open>item.get\<close> raises \<open>AttributeError\<close>, which the
  handler does not catch. On any other value \<open>k in item\<close> raises \<open>TypeError\<close>, the
  handler runs \<open>item[k] = 0\<close>, and that raises \<open>TypeError\<close> again, outside the
  \<open>try\<close>.
\<close>

fun coerce_item_field :: "runtime \<Rightarrow> string \<Rightarrow> pyval \<Rightarrow> error + pyval" where
  "coerce_item_field rt k (PDict d) =
     (case coerce_field rt k d of Inl e \<Rightarrow> Inl e | Inr d' \<Rightarrow> Inr (PDict d'))"
| "coerce_item_field rt k (PStr s) =
     (if is_substr k s then Inl AttributeError else Inr (PStr s))"
| "coerce_item_field rt k (PList xs) =
     (if PStr k \<in> set xs then Inl AttributeError else Inr (PList xs))"
| "coerce_item_field rt k v = Inl TypeError"

definition coerce_item :: "runtime \<Rightarrow> pyval \<Rightarrow> error + pyval" where
  "coerce_item rt item =
     (case coerce_item_field rt ''quantity'' item of
        Inl e \<Rightarrow> Inl e
      | Inr item' \<Rightarrow> coerce_item_field rt ''price'' item')"

fun coerce_items :: "runtime \<Rightarrow> pyval list \<Rightarrow> error + pyval list" where
  "coerce_items rt [] = Inr []"
| "coerce_items rt (item # rest) =
     (case coerce_item rt item of
        Inl e \<Rightarrow> Inl e
      | Inr item' \<Rightarrow>
          (case coerce_items rt rest of
             Inl e \<Rightarrow> Inl e
           | Inr rest' \<Rightarrow> Inr (item' # rest')))"

subsection \<open>The document handed to the database (lines 52-79)\<close>

text \<open>
  The items are coerced in place, so a non-empty list stored under \<open>items\<close> holds the
  coerced items afterwards; the keys of a dictionary and the characters of a string are
  only visited. Items are values here: two entries of the list never share one object,
  which is what a decoded JSON body gives.
\<close>

definition stamp_order :: "datetime \<Rightarrow> pydict \<Rightarrow> pydict" where
  "stamp_order now order =
     (let order1 = dict_set order ''orderDate'' (PStr (strftime_date now));
          order2 = dict_set order1 ''createdAt'' (PDatetime now)
      in (case map_of order2 ''deliveryDate'' of
            None \<Rightarrow> order2
          | Some v \<Rightarrow> if truthy v then dict_set order2 ''deliveryDate'' v else order2))"

definition coerce_order_items :: "runtime \<Rightarrow> pydict \<Rightarrow> error + pydict" where
  "coerce_order_items rt order =
     (case py_iter (py_or (get_default order ''items'' (PList [])) (PList [])) of
        Inl e \<Rightarrow> Inl e
      | Inr items \<Rightarrow>
          (case coerce_items rt items of
             Inl e \<Rightarrow> Inl e
           | Inr items' \<Rightarrow>
               Inr (case map_of order ''items'' of
                      Some (PList (x # xs)) \<Rightarrow> dict_set order ''items'' (PList items')
                    | _ \<Rightarrow> order)))"

definition prepare_order :: "runtime \<Rightarrow> datetime \<Rightarrow> pydict \<Rightarrow> error + pydict" where
  "prepare_order rt now order =
     (case coerce_field rt ''total'' (stamp_order now order) of
        Inl e \<Rightarrow> Inl e
      | Inr order' \<Rightarrow> coerce_order_items rt order')"

subsection \<open>The collection\<close>

text \<open>
  The collection is the list of its documents in insertion order. \<open>insert_one\<close> gives
  a document without \<open>_id\<close> the fresh identifier \<open>new_id\<close>, stores \<open>_id\<close> as the first
  field, and refuses a second document with the same \<open>_id\<close>. The limits of the BSON
  encoding (64-bit integers, millisecond timestamps) are not modelled.
\<close>

definition insert_one :: "pydict list \<Rightarrow> string \<Rightarrow> pydict \<Rightarrow> error + pydict list" where
  "insert_one coll new_id doc =
     (let idv = get_default doc ''_id'' (PObjectId new_id);
          doc' = (''_id'', idv) # filter (\<lambda>kv. fst kv \<noteq> ''_id'') doc
      in if Some idv \<in> set (map (\<lambda>d. map_of d ''_id'') coll) then Inl DuplicateKeyError
         else Inr (coll @ [doc']))"

definition place_order ::
  "runtime \<Rightarrow> pydict list option \<Rightarrow> datetime \<Rightarrow> string \<Rightarrow> pydict \<Rightarrow> error + pydict list" where
  "place_order rt order_collection now new_id order =
     (case order_collection of
        None \<Rightarrow> Inl (RuntimeError ''Database not connected: cannot place order'')
      | Some coll \<Rightarrow>
          (case prepare_order rt now order of
             Inl e \<Rightarrow> Inl e
           | Inr doc \<Rightarrow> insert_one coll new_id doc))"

section \<open>Normalising documents for the API (lines 83-101)\<close>

definition py_str :: "runtime \<Rightarrow> pyval \<Rightarrow> string" where
  "py_str rt v = (case v of PObjectId h \<Rightarrow> h | PStr s \<Rightarrow> s | _ \<Rightarrow> str_other rt v)"

definition serialize_datetimes :: "pydict \<Rightarrow> pydict" where
  "serialize_datetimes doc =
     (if doc = [] then doc
      else
        (let doc1 = (case map_of doc ''createdAt'' of
                       Some (PDatetime t) \<Rightarrow> dict_set doc ''createdAt'' (PStr (strftime_datetime t))
                     | _ \<Rightarrow> doc)
         in (case map_of doc1 ''updatedAt'' of
               Some (PDatetime t) \<Rightarrow> dict_set doc1 ''updatedAt'' (PStr (strftime_datetime t))
             | _ \<Rightarrow> doc1)))"

text \<open>\<open>_serialize_order\<close>; the result is \<open>None\<close> for an empty document.\<close>

definition serialize_order :: "runtime \<Rightarrow> pydict \<Rightarrow> pyval" where
  "serialize_order rt doc =
     (if doc = [] then PNone
      else
        PDict (serialize_datetimes
          (case map_of doc ''_id'' of
             None \<Rightarrow> doc
           | Some PNone \<Rightarrow> doc
           | Some v \<Rightarrow> dict_set doc ''_id'' (PStr (py_str rt v)))))"

section \<open>Sorting\<close>

text \<open>
  \<^verbatim>\<open>sorted(xs, key=..., reverse=True)\<close> with \<open>lt\<close> the comparison \<open><\<close> on keys:
  CPython reverses the list, sorts it ascending and stably, and reverses the result.
  Where \<open>lt\<close> is a strict weak order, that list is unique and is the one computed here:
  each element, from the last to the first, is put before the first element that is
  not greater. For lists shorter than 64 elements that \<open>lt\<close> finds already in order
  after the reversal, CPython's run detection leaves the list as it is, and so does this
  function, whatever \<open>lt\<close> is.
\<close>

fun insert_desc :: "('a \<Rightarrow> 'a \<Rightarrow> bool) \<Rightarrow> 'a \<Rightarrow> 'a list \<Rightarrow> 'a list" where
  "insert_desc lt x [] = [x]"
| "insert_desc lt x (y # ys) = (if lt x y then y # insert_desc lt x ys else x # y # ys)"

definition sorted_rev :: "('a \<Rightarrow> 'a \<Rightarrow> bool) \<Rightarrow> 'a list \<Rightarrow> 'a list" where
  "sorted_rev lt xs = foldr (insert_desc lt) xs []"

text \<open>
  \<^verbatim>\<open>.sort("createdAt", -1)\<close> of the database: by the timestamp, which the database
  keeps to the millisecond, newest first; documents whose \<open>createdAt\<close> is not a
  datetime come last (the order of BSON between values of other types is not modelled),
  and documents that compare equal keep their order.
\<close>

fun lex_lt :: "nat list \<Rightarrow> nat list \<Rightarrow> bool" where
  "lex_lt (x # xs) (y # ys) = (x < y \<or> (x = y \<and> lex_lt xs ys))"
| "lex_lt xs ys = False"

definition created_key :: "pydict \<Rightarrow> nat list option" where
  "created_key d =
     (case map_of d ''createdAt'' of
        Some (PDatetime t) \<Rightarrow>
          Some [year t, month t, day t, hour t, minute t, second t, microsecond t div 1000]
      | _ \<Rightarrow> None)"

definition created_lt :: "pydict \<Rightarrow> pydict \<Rightarrow> bool" where
  "created_lt a b =
     (case created_key b of
        None \<Rightarrow> False
      | Some y \<Rightarrow> (case created_key a of None \<Rightarrow> True | Some x \<Rightarrow> lex_lt x y))"

definition sort_created_desc :: "pydict list \<Rightarrow> pydict list" where
  "sort_created_desc docs = sorted_rev created_lt docs"

section \<open>\<open>get_orders\<close>\<close>

definition get_orders :: "runtime \<Rightarrow> pydict list option \<Rightarrow> pyval list" where
  "get_orders rt order_collection =
     (case order_collection of
        None \<Rightarrow> []
      | Some coll \<Rightarrow> map (serialize_order rt) (sort_created_desc coll))"

section \<open>\<open>get_daily_summary\<close>\<close>

subsection \<open>Arithmetic and comparison of numbers\<close>

text \<open>\<open>int + float\<close> and \<open>int * float\<close> convert the integer first; comparison and
  equality between an integer and a float are exact in Python.\<close>

definition num_add :: "runtime \<Rightarrow> num \<Rightarrow> num \<Rightarrow> error + num" where
  "num_add rt a b =
     (case (a, b) of
        (NInt x, NInt y) \<Rightarrow> Inr (NInt (x + y))
      | (NInt x, NFloat g) \<Rightarrow>
          (case int_to_float rt x of Inl e \<Rightarrow> Inl e | Inr f \<Rightarrow> Inr (NFloat (float_add rt f g)))
      | (NFloat f, NInt y) \<Rightarrow>
          (case int_to_float rt y of Inl e \<Rightarrow> Inl e | Inr g \<Rightarrow> Inr (NFloat (float_add rt f g)))
      | (NFloat f, NFloat g) \<Rightarrow> Inr (NFloat (float_add rt f g)))"

definition num_mul :: "runtime \<Rightarrow> num \<Rightarrow> num \<Rightarrow> error + num" where
  "num_mul rt a b =
     (case (a, b) of
        (NInt x, NInt y) \<Rightarrow> Inr (NInt (x * y))
      | (NInt x, NFloat g) \<Rightarrow>
          (case int_to_float rt x of Inl e \<Rightarrow> Inl e | Inr f \<Rightarrow> Inr (NFloat (float_mul rt f g)))
      | (NFloat f, NInt y) \<Rightarrow>
          (case int_to_float rt y of Inl e \<Rightarrow> Inl e | Inr g \<Rightarrow> Inr (NFloat (float_mul rt f g)))
      | (NFloat f, NFloat g) \<Rightarrow> Inr (NFloat (float_mul rt f g)))"

fun num_exact :: "num \<Rightarrow> pyfloat" where
  "num_exact (NInt i) = Fin (of_int i)"
| "num_exact (NFloat f) = f"

definition float_lt :: "pyfloat \<Rightarrow> pyfloat \<Rightarrow> bool" where
  "float_lt a b =
     (case (a, b) of
        (Fin x, Fin y) \<Rightarrow> x < y
      | (Fin x, PosInf) \<Rightarrow> True
      | (NegInf, Fin y) \<Rightarrow> True
      | (NegInf, PosInf) \<Rightarrow> True
      | _ \<Rightarrow> False)"

definition num_lt :: "num \<Rightarrow> num \<Rightarrow> bool" where
  "num_lt a b = float_lt (num_exact a) (num_exact b)"

definition num_eq :: "num \<Rightarrow> num \<Rightarrow> bool" where
  "num_eq a b = (num_exact a \<noteq> NaN \<and> num_exact a = num_exact b)"

text \<open>Python's \<open><=\<close> on numbers; like \<open><\<close> and \<open>==\<close> it is false whenever an
  operand is NaN.\<close>

definition num_le :: "num \<Rightarrow> num \<Rightarrow> bool" where
  "num_le a b = (num_lt a b \<or> num_eq a b)"

subsection \<open>The revenue loop (lines 127-132)\<close>

fun sum_revenue :: "runtime \<Rightarrow> num \<Rightarrow> pydict list \<Rightarrow> error + num" where
  "sum_revenue rt total_revenue [] = Inr total_revenue"
| "sum_revenue rt total_revenue (order # rest) =
     (case float_py rt (py_or (get_default order ''total'' (PInt 0)) (PInt 0)) of
        Inl e \<Rightarrow> if caught e then sum_revenue rt total_revenue rest else Inl e
      | Inr f \<Rightarrow>
          (case num_add rt total_revenue (NFloat f) of
             Inl e \<Rightarrow> if caught e then sum_revenue rt total_revenue rest else Inl e
           | Inr total_revenue' \<Rightarrow> sum_revenue rt total_revenue' rest))"

subsection \<open>The item loop (lines 134-157)\<close>

record sweet_stat =
  name :: pyval
  quantity :: num
  revenue :: num

text \<open>
  The keys of \<open>sweet_stats\<close>: lists and dictionaries are unhashable; numbers (and
  booleans, which are integers) are one key when they are equal as numbers; a NaN read
  from a document equals no other key.
\<close>

fun hashable :: "pyval \<Rightarrow> bool" where
  "hashable (PList xs) = False"
| "hashable (PDict d) = False"
| "hashable v = True"

fun as_num :: "pyval \<Rightarrow> num option" where
  "as_num (PBool b) = Some (NInt (if b then 1 else 0))"
| "as_num (PInt i) = Some (NInt i)"
| "as_num (PFloat f) = Some (NFloat f)"
| "as_num v = None"

definition key_eq :: "pyval \<Rightarrow> pyval \<Rightarrow> bool" where
  "key_eq a b =
     (case as_num a of
        Some x \<Rightarrow> (case as_num b of Some y \<Rightarrow> num_eq x y | None \<Rightarrow> False)
      | None \<Rightarrow> (case as_num b of Some y \<Rightarrow> False | None \<Rightarrow> a = b))"

text \<open>\<^verbatim>\<open>s["quantity"] += q; s["revenue"] += q * price\<close> on one entry.\<close>

definition bump :: "runtime \<Rightarrow> num \<Rightarrow> num \<Rightarrow> sweet_stat \<Rightarrow> error + sweet_stat" where
  "bump rt q price s =
     (case num_add rt (quantity s) q of
        Inl e \<Rightarrow> Inl e
      | Inr q' \<Rightarrow>
          (case num_mul rt q price of
             Inl e \<Rightarrow> Inl e
           | Inr r \<Rightarrow>
               (case num_add rt (revenue s) r of
                  Inl e \<Rightarrow> Inl e
                | Inr r' \<Rightarrow> Inr (s\<lparr>quantity := q', revenue := r'\<rparr>))))"

text \<open>Lines 153-157 on \<open>sweet_stats\<close>, the entries in insertion order.\<close>

fun stats_add ::
  "runtime \<Rightarrow> pyval \<Rightarrow> num \<Rightarrow> num \<Rightarrow> sweet_stat list \<Rightarrow> error + sweet_stat list" where
  "stats_add rt nm q price [] =
     (case bump rt q price \<lparr>name = nm, quantity = NInt 0, revenue = NInt 0\<rparr> of
        Inl e \<Rightarrow> Inl e
      | Inr s \<Rightarrow> Inr [s])"
| "stats_add rt nm q price (s # ss) =
     (if key_eq nm (name s)
      then (case bump rt q price s of Inl e \<Rightarrow> Inl e | Inr s' \<Rightarrow> Inr (s' # ss))
      else (case stats_add rt nm q price ss of Inl e \<Rightarrow> Inl e | Inr ss' \<Rightarrow> Inr (s # ss')))"

text \<open>The loop body; \<open>item.get\<close> on a value that is not a dictionary raises
  \<open>AttributeError\<close>, which no handler catches.\<close>

definition item_step ::
  "runtime \<Rightarrow> num \<times> sweet_stat list \<Rightarrow> pyval \<Rightarrow> error + num \<times> sweet_stat list" where
  "item_step rt st item =
     (case item of
        PDict d \<Rightarrow>
          (case coerce_number rt (get_default d ''quantity'' (PInt 0)) of
             Inl e \<Rightarrow> Inl e
           | Inr quantity_ordered \<Rightarrow>
               (let sweet_name =
                      py_or (py_or (get_default d ''sweetName'' PNone) (get_default d ''name'' PNone))
                        (PStr ''Unknown'')
                in (case coerce_number rt (get_default d ''price'' (PInt 0)) of
                      Inl e \<Rightarrow> Inl e
                    | Inr price \<Rightarrow>
                        (case num_add rt (fst st) quantity_ordered of
                           Inl e \<Rightarrow> Inl e
                         | Inr total_items_sold \<Rightarrow>
                             if \<not> hashable sweet_name then Inl TypeError
                             else
                               (case stats_add rt sweet_name quantity_ordered price (snd st) of
                                  Inl e \<Rightarrow> Inl e
                                | Inr sweet_stats \<Rightarrow> Inr (total_items_sold, sweet_stats))))))
      | _ \<Rightarrow> Inl AttributeError)"

fun items_loop ::
  "runtime \<Rightarrow> num \<times> sweet_stat list \<Rightarrow> pyval list \<Rightarrow> error + num \<times> sweet_stat list" where
  "items_loop rt st [] = Inr st"
| "items_loop rt st (item # rest) =
     (case item_step rt st item of Inl e \<Rightarrow> Inl e | Inr st' \<Rightarrow> items_loop rt st' rest)"

fun orders_loop ::
  "runtime \<Rightarrow> num \<times> sweet_stat list \<Rightarrow> pydict list \<Rightarrow> error + num \<times> sweet_stat list" where
  "orders_loop rt st [] = Inr st"
| "orders_loop rt st (order # rest) =
     (case py_iter (py_or (get_default order ''items'' (PList [])) (PList [])) of
        Inl e \<Rightarrow> Inl e
      | Inr items \<Rightarrow>
          (case items_loop rt st items of
             Inl e \<Rightarrow> Inl e
           | Inr st' \<Rightarrow> orders_loop rt st' rest))"

subsection \<open>The query and the summary\<close>

text \<open>
  \<^verbatim>\<open>find({"orderDate": today}, {"_id": 0})\<close>: an equality filter of the database
  matches a field equal to the value and also an array field that contains it; the
  projection removes \<open>_id\<close>.
\<close>

definition field_matches :: "pyval option \<Rightarrow> pyval \<Rightarrow> bool" where
  "field_matches fv q =
     (case fv of
        None \<Rightarrow> False
      | Some (PList xs) \<Rightarrow> PList xs = q \<or> q \<in> set xs
      | Some v \<Rightarrow> v = q)"

definition is_today :: "datetime \<Rightarrow> pydict \<Rightarrow> bool" where
  "is_today now d = field_matches (map_of d ''orderDate'') (PStr (strftime_date now))"

definition without_id :: "pydict \<Rightarrow> pydict" where
  "without_id d = filter (\<lambda>kv. fst kv \<noteq> ''_id'') d"

definition today_orders :: "pydict list \<Rightarrow> datetime \<Rightarrow> pydict list" where
  "today_orders coll now = map without_id (sort_created_desc (filter (is_today now) coll))"

record summary =
  total_orders :: nat
  total_revenue :: num
  total_items_sold :: num
  popular_sweets :: "sweet_stat list"
  orders :: "pyval list"

definition quantity_lt :: "sweet_stat \<Rightarrow> sweet_stat \<Rightarrow> bool" where
  "quantity_lt x y = num_lt (quantity x) (quantity y)"

definition get_daily_summary ::
  "runtime \<Rightarrow> pydict list option \<Rightarrow> datetime \<Rightarrow> error + summary" where
  "get_daily_summary rt order_collection now =
     (case order_collection of
        None \<Rightarrow>
          Inr \<lparr>total_orders = 0, total_revenue = NInt 0, total_items_sold = NInt 0,
               popular_sweets = [], orders = []\<rparr>
      | Some coll \<Rightarrow>
          (let todays = today_orders coll now
           in (case sum_revenue rt (NInt 0) todays of
                 Inl e \<Rightarrow> Inl e
               | Inr revenue_sum \<Rightarrow>
                   (case orders_loop rt (NInt 0, []) todays of
                      Inl e \<Rightarrow> Inl e
                    | Inr st \<Rightarrow>
                        Inr \<lparr>total_orders = length todays,
                             total_revenue = revenue_sum,
                             total_items_sold = fst st,
                             popular_sweets = take 5 (sorted_rev quantity_lt (snd st)),
                             orders = map (serialize_order rt) todays\<rparr>))))"

section \<open>The mutations\<close>

subsection \<open>The database's find and update\<close>

text \<open>\<^verbatim>\<open>find_one({"_id": oid})\<close>: the first document with that identifier.\<close>

definition has_id :: "string \<Rightarrow> pydict \<Rightarrow> bool" where
  "has_id oid d = (map_of d ''_id'' = Some (PObjectId oid))"

definition find_one :: "pydict list \<Rightarrow> string \<Rightarrow> pydict option" where
  "find_one coll oid = find (has_id oid) coll"

text \<open>\<open>$set\<close>: every field of the payload is written, existing fields in place and
  new ones at the end.\<close>

definition apply_set :: "pydict \<Rightarrow> pydict \<Rightarrow> pydict" where
  "apply_set payload d = foldl (\<lambda>acc kv. dict_set acc (fst kv) (snd kv)) d payload"

text \<open>\<^verbatim>\<open>find_one_and_update(..., return_document=ReturnDocument.AFTER)\<close>: the new
  collection and the document after the update, \<open>None\<close> when nothing matches.\<close>

fun find_one_and_update ::
  "pydict list \<Rightarrow> string \<Rightarrow> pydict \<Rightarrow> pydict list \<times> pydict option" where
  "find_one_and_update [] oid payload = ([], None)"
| "find_one_and_update (d # ds) oid payload =
     (if has_id oid d then (apply_set payload d # ds, Some (apply_set payload d))
      else (case find_one_and_update ds oid payload of (ds', r) \<Rightarrow> (d # ds', r)))"

definition project :: "string list \<Rightarrow> pydict \<Rightarrow> pydict" where
  "project keys d = filter (\<lambda>kv. fst kv \<in> set keys) d"

subsection \<open>\<open>update_order_status\<close>\<close>

definition status_payload :: "datetime \<Rightarrow> pyval \<Rightarrow> pydict" where
  "status_payload now status = [(''status'', status), (''updatedAt'', PDatetime now)]"

definition status_projection :: "string list" where
  "status_projection =
     [''_id'', ''customerName'', ''mobile'', ''address'', ''status'', ''total'', ''orderDate'',
      ''deliveryDate'', ''createdAt'', ''updatedAt'', ''items'']"

text \<open>The result is the new state of the collection and the returned value.\<close>

definition update_order_status ::
  "runtime \<Rightarrow> pydict list option \<Rightarrow> datetime \<Rightarrow> string \<Rightarrow> pyval \<Rightarrow>
     error + pydict list \<times> pyval" where
  "update_order_status rt order_collection now order_id status =
     (case order_collection of
        None \<Rightarrow> Inl (RuntimeError ''Database not connected: cannot update order status'')
      | Some coll \<Rightarrow>
          (case object_id rt order_id of
             None \<Rightarrow> Inr (coll, PNone)
           | Some oid \<Rightarrow>
               (case find_one_and_update coll oid (status_payload now status) of
                  (coll', None) \<Rightarrow> Inr (coll', PNone)
                | (coll', Some d) \<Rightarrow>
                    (let updated = project status_projection d
                     in if updated = [] then Inr (coll', PNone)
                        else Inr (coll', serialize_order rt updated)))))"

subsection \<open>\<open>edit_order\<close>\<close>

definition field_map :: "(string \<times> string) list" where
  "field_map =
     [(''customerName'', ''customerName''),
      (''contact'', ''mobile''),
      (''amount'', ''total''),
      (''status'', ''status''),
      (''address'', ''address''),
      (''mobile'', ''mobile''),
      (''total'', ''total''),
      (''deliveryDate'', ''deliveryDate''),
      (''preference'', ''preference''),
      (''items'', ''items'')]"

text \<open>Lines 230-246: entries that are not dictionaries are dropped, the others are
  copied with \<open>quantity\<close> and \<open>price\<close> coerced.\<close>

fun norm_items :: "runtime \<Rightarrow> pyval list \<Rightarrow> error + pyval list" where
  "norm_items rt [] = Inr []"
| "norm_items rt (PDict item # rest) =
     (case coerce_field rt ''quantity'' item of
        Inl e \<Rightarrow> Inl e
      | Inr itm1 \<Rightarrow>
          (case coerce_field rt ''price'' itm1 of
             Inl e \<Rightarrow> Inl e
           | Inr itm2 \<Rightarrow>
               (case norm_items rt rest of
                  Inl e \<Rightarrow> Inl e
                | Inr rest' \<Rightarrow> Inr (PDict itm2 # rest'))))"
| "norm_items rt (item # rest) = norm_items rt rest"

text \<open>The value stored under \<open>dest\<close> (lines 223-246).\<close>

definition payload_value :: "runtime \<Rightarrow> string \<Rightarrow> pyval \<Rightarrow> error + pyval" where
  "payload_value rt dest v =
     (case (if dest = ''total''
            then (case coerce_number rt v of Inl e \<Rightarrow> Inl e | Inr x \<Rightarrow> Inr (num_val x))
            else Inr v) of
        Inl e \<Rightarrow> Inl e
      | Inr v1 \<Rightarrow>
          (if dest = ''items''
           then (case v1 of
                   PList xs \<Rightarrow>
                     (case norm_items rt xs of Inl e \<Rightarrow> Inl e | Inr ys \<Rightarrow> Inr (PList ys))
                 | _ \<Rightarrow> Inr v1)
           else Inr v1))"

text \<open>The loop of lines 218-247 over \<open>updates.items()\<close>, with \<open>set_payload\<close> as the
  accumulator.\<close>

fun build_payload :: "runtime \<Rightarrow> pydict \<Rightarrow> pydict \<Rightarrow> error + pydict" where
  "build_payload rt set_payload [] = Inr set_payload"
| "build_payload rt set_payload ((k, v) # rest) =
     (case map_of field_map k of
        None \<Rightarrow> build_payload rt set_payload rest
      | Some dest \<Rightarrow>
          (case payload_value rt dest v of
             Inl e \<Rightarrow> Inl e
           | Inr v' \<Rightarrow> build_payload rt (dict_set set_payload dest v') rest))"

text \<open>\<^verbatim>\<open>(updates or {}).items()\<close>: a truthy value that is not a dictionary has no
  \<open>items\<close> method.\<close>

definition update_items :: "pyval \<Rightarrow> error + pydict" where
  "update_items updates =
     (case py_or updates (PDict []) of PDict d \<Rightarrow> Inr d | _ \<Rightarrow> Inl AttributeError)"

definition edit_order ::
  "runtime \<Rightarrow> pydict list option \<Rightarrow> datetime \<Rightarrow> string \<Rightarrow> pyval \<Rightarrow>
     error + pydict list \<times> pyval" where
  "edit_order rt order_collection now order_id updates =
     (case order_collection of
        None \<Rightarrow> Inl (RuntimeError ''Database not connected: cannot edit order'')
      | Some coll \<Rightarrow>
          (case object_id rt order_id of
             None \<Rightarrow> Inr (coll, PNone)
           | Some oid \<Rightarrow>
               (case update_items updates of
                  Inl e \<Rightarrow> Inl e
                | Inr upd \<Rightarrow>
                    (case build_payload rt [] upd of
                       Inl e \<Rightarrow> Inl e
                     | Inr set_payload \<Rightarrow>
                         if set_payload = [] then
                           (case find_one coll oid of
                              None \<Rightarrow> Inr (coll, PNone)
                            | Some current \<Rightarrow>
                                if current = [] then Inr (coll, PNone)
                                else Inr (coll, serialize_order rt current))
                         else
                           (case find_one_and_update coll oid
                                   (dict_set set_payload ''updatedAt'' (PDatetime now)) of
                              (coll', None) \<Rightarrow> Inr (coll', PNone)
                            | (coll', Some updated) \<Rightarrow>
                                if updated = [] then Inr (coll', PNone)
                                else Inr (coll', serialize_order rt updated))))))"

subsection \<open>Sequences of mutations\<close>

text \<open>A call of one of the two mutation operations, with the clock at the call. A call
  that raises leaves the collection as it was: both operations raise before they reach
  the database.\<close>

datatype mutation =
    UpdateStatus datetime string pyval
  | EditOrder datetime string pyval

fun mutate :: "runtime \<Rightarrow> pydict list \<Rightarrow> mutation \<Rightarrow> pydict list" where
  "mutate rt coll (UpdateStatus now order_id status) =
     (case update_order_status rt (Some coll) now order_id status of
        Inl e \<Rightarrow> coll | Inr r \<Rightarrow> fst r)"
| "mutate rt coll (EditOrder now order_id updates) =
     (case edit_order rt (Some coll) now order_id updates of
        Inl e \<Rightarrow> coll | Inr r \<Rightarrow> fst r)"

definition mutate_all :: "runtime \<Rightarrow> pydict list \<Rightarrow> mutation list \<Rightarrow> pydict list" where
  "mutate_all rt coll ms = foldl (mutate rt) coll ms"

section \<open>A runtime for the examples\<close>

text \<open>
  The examples are evaluated with a runtime that computes without rounding: it reads
  plain decimal literals and \<open>nan\<close>, \<open>inf\<close>, \<open>-inf\<close>, adds and multiplies exactly,
  converts integers below \<open>2^1024\<close> exactly, and reads an identifier from 24 hexadecimal
  digits. On the inputs of the examples it agrees with CPython and \<open>bson\<close>.
\<close>

definition digit_of :: "char \<Rightarrow> nat option" where
  "digit_of c =
     map_of [(CHR ''0'', 0), (CHR ''1'', 1), (CHR ''2'', 2), (CHR ''3'', 3), (CHR ''4'', 4),
             (CHR ''5'', 5), (CHR ''6'', 6), (CHR ''7'', 7), (CHR ''8'', 8), (CHR ''9'', 9)] c"

fun digits_val :: "nat \<Rightarrow> string \<Rightarrow> nat option" where
  "digits_val acc [] = Some acc"
| "digits_val acc (c # cs) =
     (case digit_of c of None \<Rightarrow> None | Some d \<Rightarrow> digits_val (10 * acc + d) cs)"

definition decimal_of_str :: "string \<Rightarrow> pyfloat option" where
  "decimal_of_str s =
     (if s = ''nan'' then Some NaN
      else if s = ''inf'' then Some PosInf
      else if s = ''-inf'' then Some NegInf
      else
        (let neg = (take 1 s = ''-'');
             body = (if neg then drop 1 s else s);
             ip = takeWhile (\<lambda>c. c \<noteq> CHR ''.'') body;
             fp = drop 1 (dropWhile (\<lambda>c. c \<noteq> CHR ''.'') body)
         in if ip = [] \<and> fp = [] then None
            else
              (case digits_val 0 ip of
                 None \<Rightarrow> None
               | Some a \<Rightarrow>
                   (case digits_val 0 fp of
                      None \<Rightarrow> None
                    | Some b \<Rightarrow>
                        Some (Fin ((if neg then - 1 else 1)
                                   * (of_nat a + of_nat b / 10 ^ length fp)))))))"

definition exact_add :: "pyfloat \<Rightarrow> pyfloat \<Rightarrow> pyfloat" where
  "exact_add a b =
     (case (a, b) of
        (Fin x, Fin y) \<Rightarrow> Fin (x + y)
      | (Fin x, PosInf) \<Rightarrow> PosInf
      | (Fin x, NegInf) \<Rightarrow> NegInf
      | (PosInf, Fin y) \<Rightarrow> PosInf
      | (PosInf, PosInf) \<Rightarrow> PosInf
      | (NegInf, Fin y) \<Rightarrow> NegInf
      | (NegInf, NegInf) \<Rightarrow> NegInf
      | _ \<Rightarrow> NaN)"

definition exact_mul :: "pyfloat \<Rightarrow> pyfloat \<Rightarrow> pyfloat" where
  "exact_mul a b =
     (case (a, b) of
        (Fin x, Fin y) \<Rightarrow> Fin (x * y)
      | (Fin x, PosInf) \<Rightarrow> (if x = 0 then NaN else if 0 < x then PosInf else NegInf)
      | (Fin x, NegInf) \<Rightarrow> (if x = 0 then NaN else if 0 < x then NegInf else PosInf)
      | (PosInf, Fin y) \<Rightarrow> (if y = 0 then NaN else if 0 < y then PosInf else NegInf)
      | (NegInf, Fin y) \<Rightarrow> (if y = 0 then NaN else if 0 < y then NegInf else PosInf)
      | (PosInf, PosInf) \<Rightarrow> PosInf
      | (NegInf, NegInf) \<Rightarrow> PosInf
      | (PosInf, NegInf) \<Rightarrow> NegInf
      | (NegInf, PosInf) \<Rightarrow> NegInf
      | _ \<Rightarrow> NaN)"

definition hex_lower :: "char \<Rightarrow> char option" where
  "hex_lower c =
     map_of (zip ''0123456789abcdefABCDEF'' ''0123456789abcdefabcdef'') c"

definition hex_object_id :: "string \<Rightarrow> string option" where
  "hex_object_id s =
     (if length s = 24 \<and> list_all (\<lambda>c. hex_lower c \<noteq> None) s
      then Some (map (\<lambda>c. case hex_lower c of None \<Rightarrow> c | Some l \<Rightarrow> l) s)
      else None)"

definition exact_runtime :: runtime where
  "exact_runtime =
     \<lparr>float_of_str = decimal_of_str,
      float_of_bigint = (\<lambda>i. if \<bar>i\<bar> < 2 ^ 1024 then Some (Fin (of_int i)) else None),
      float_add = exact_add,
      float_mul = exact_mul,
      object_id = hex_object_id,
      str_other = (\<lambda>v. case v of PNone \<Rightarrow> ''None'' | PBool b \<Rightarrow> (if b then ''True'' else ''False'')
                               | _ \<Rightarrow> [])\<rparr>"

section \<open>The summary as the specification words it\<close>

text \<open>
  The specification describes the daily summary by what it contains, not by the loops
  that compute it: the revenue is the sum of the totals of today's orders, a total that
  cannot be converted being skipped; the items sold are the sum of the quantities of all
  their line items; and there is one aggregate per sweet name, with the quantities and
  the quantity times price of the line items of that name summed. These definitions
  follow those words, with \<open>+\<close> and \<open>*\<close> as the runtime computes them and the
  sums taken in the order of the documents and of their items. They are compared with
  the loops of the source below.
\<close>

definition num_sum :: "runtime \<Rightarrow> num \<Rightarrow> num \<Rightarrow> num" where
  "num_sum rt a b =
     (case (a, b) of
        (NInt x, NInt y) \<Rightarrow> NInt (x + y)
      | _ \<Rightarrow> NFloat (float_add rt (num_exact a) (num_exact b)))"

definition num_prod :: "runtime \<Rightarrow> num \<Rightarrow> num \<Rightarrow> num" where
  "num_prod rt a b =
     (case (a, b) of
        (NInt x, NInt y) \<Rightarrow> NInt (x * y)
      | _ \<Rightarrow> NFloat (float_mul rt (num_exact a) (num_exact b)))"





record line_item =
  sweet :: pyval
  qty :: num
  unit_price :: num







definition spec_entry :: "runtime \<Rightarrow> line_item list \<Rightarrow> pyval \<Rightarrow> sweet_stat" where
  "spec_entry rt ls nm =
     \<lparr>name = nm,
      quantity = foldl (num_sum rt) (NInt 0) (map qty (filter (\<lambda>l. key_eq (sweet l) nm) ls)),
      revenue = foldl (num_sum rt) (NInt 0)
                  (map (\<lambda>l. num_prod rt (qty l) (unit_price l))
                     (filter (\<lambda>l. key_eq (sweet l) nm) ls))\<rparr>"


text \<open>Auxiliary notions of the proofs: the numbers the accumulators can hold (the
  integer \<open>0\<close> or a float), the invariant of the names seen so far (no two are the
  same key, and every line item has its name among them), and an update whose value
  makes \<open>float()\<close> overflow.\<close>

definition small :: "num \<Rightarrow> bool" where
  "small n = (n = NInt 0 \<or> (\<exists>f. n = NFloat f))"


definition overflowing :: "string \<Rightarrow> pyval \<Rightarrow> bool" where
  "overflowing k v =
     (\<exists>i. 2 ^ 53 < \<bar>i\<bar> \<and>
        ((map_of field_map k = Some ''total'' \<and> v = PInt i) \<or>
         (map_of field_map k = Some ''items'' \<and>
          (\<exists>xs d. v = PList xs \<and> PDict d \<in> set xs \<and>
             (map_of d ''quantity'' = Some (PInt i) \<or> map_of d ''price'' = Some (PInt i))))))"

text \<open>The clock reading and the identifier used in the examples.\<close>

abbreviation example_now :: datetime where
  "example_now \<equiv>
     \<lparr>year = 2024, month = 3, day = 5, hour = 14, minute = 7, second = 9, microsecond = 0\<rparr>"

abbreviation example_id :: string where
  "example_id \<equiv> ''65f0a1b2c3d4e5f6a7b8c9d0''"

section \<open>Properties of the building blocks\<close>

lemmas place_defs =
  place_order_def prepare_order_def stamp_order_def coerce_order_items_def coerce_item_def
  coerce_field_def coerce_number_def py_or_def get_default_def insert_one_def caught_def
  int_to_float_def strftime_date_def strftime_datetime_def pad2_def pad4_def digit_char_def Let_def

lemmas runtime_defs =
  exact_runtime_def decimal_of_str_def digit_of_def hex_object_id_def hex_lower_def
  exact_add_def exact_mul_def

lemma map_of_dict_set:
  "map_of (dict_set d k v) k' = (if k' = k then Some v else map_of d k')"
  by (induction d k v rule: dict_set.induct) auto

lemma keys_dict_set:
  "map fst (dict_set d k v) = (if k \<in> set (map fst d) then map fst d else map fst d @ [k])"
  by (induction d k v rule: dict_set.induct) auto

lemma map_of_filter_other:
  "k \<noteq> k0 \<Longrightarrow> map_of (filter (\<lambda>kv. fst kv \<noteq> k0) d) k = map_of d k"
  by (induction d) auto

lemma map_of_stamp_order:
  "map_of (stamp_order now order) k =
     (if k = ''createdAt'' then Some (PDatetime now)
      else if k = ''orderDate'' then Some (PStr (strftime_date now))
      else map_of order k)"
  by (auto simp: stamp_order_def Let_def map_of_dict_set split: option.splits)

text \<open>The \<open>try\<close> block by cases: a falsy value gives \<open>0.0\<close>, a convertible one its
  float, and the handler gives the integer \<open>0\<close>.\<close>

lemma coerce_number_cases:
  "coerce_number rt v =
     (if \<not> truthy v then Inr (NFloat (Fin 0))
      else (case float_py rt v of
              Inr f \<Rightarrow> Inr (NFloat f)
            | Inl e \<Rightarrow> if caught e then Inr (NInt 0) else Inl e))"
  by (simp add: coerce_number_def py_or_def int_to_float_def)

text \<open>The only exception of \<open>float()\<close> that the handler lets through is the
  \<open>OverflowError\<close> of an integer too large for a double.\<close>

lemma float_py_error:
  "float_py rt v = Inl e \<Longrightarrow> \<not> caught e \<Longrightarrow>
   e = OverflowError \<and> (\<exists>i. v = PInt i \<and> 2 ^ 53 < \<bar>i\<bar>)"
  by (cases v) (auto simp: caught_def int_to_float_def split: option.splits if_splits)

lemma coerce_number_error:
  "coerce_number rt v = Inl e \<Longrightarrow> e = OverflowError \<and> (\<exists>i. v = PInt i \<and> 2 ^ 53 < \<bar>i\<bar>)"
  by (auto simp: coerce_number_cases split: if_splits sum.splits dest: float_py_error)

lemma keys_coerce_field:
  "coerce_field rt k d = Inr d' \<Longrightarrow> map fst d' = map fst d"
  by (auto simp: coerce_field_def keys_dict_set domI dom_map_of_conv_image_fst[symmetric]
      split: option.splits sum.splits)

lemma map_of_coerce_field:
  "coerce_field rt k d = Inr d' \<Longrightarrow>
   map_of d' k' =
     (if k' = k
      then map_option (\<lambda>v. if \<not> truthy v then PFloat (Fin 0)
                            else (case float_py rt v of Inr f \<Rightarrow> PFloat f | Inl e \<Rightarrow> PInt 0))
             (map_of d k)
      else map_of d k')"
  by (auto simp: coerce_field_def map_of_dict_set coerce_number_cases
      split: option.splits sum.splits if_splits)

lemma coerce_field_error:
  "coerce_field rt k d = Inl e \<Longrightarrow>
   e = OverflowError \<and> (\<exists>i. map_of d k = Some (PInt i) \<and> 2 ^ 53 < \<bar>i\<bar>)"
  by (auto simp: coerce_field_def split: option.splits sum.splits dest: coerce_number_error)

lemma coerce_item_dict:
  assumes "coerce_item rt (PDict d) = Inr item'"
  shows "\<exists>d'. item' = PDict d' \<and> map fst d' = map fst d \<and>
     (\<forall>k. map_of d' k =
        (if k = ''quantity'' \<or> k = ''price''
         then map_option (\<lambda>v. if \<not> truthy v then PFloat (Fin 0)
                               else (case float_py rt v of Inr f \<Rightarrow> PFloat f | Inl e \<Rightarrow> PInt 0))
                (map_of d k)
         else map_of d k))"
proof -
  from assms obtain d1 d2 where
    q: "coerce_field rt ''quantity'' d = Inr d1" and
    p: "coerce_field rt ''price'' d1 = Inr d2" and
    i: "item' = PDict d2"
    by (auto simp: coerce_item_def split: sum.splits)
  have "map fst d2 = map fst d"
    using keys_coerce_field[OF q] keys_coerce_field[OF p] by simp
  moreover have "\<forall>k. map_of d2 k =
        (if k = ''quantity'' \<or> k = ''price''
         then map_option (\<lambda>v. if \<not> truthy v then PFloat (Fin 0)
                               else (case float_py rt v of Inr f \<Rightarrow> PFloat f | Inl e \<Rightarrow> PInt 0))
                (map_of d k)
         else map_of d k)"
    by (simp add: map_of_coerce_field[OF p] map_of_coerce_field[OF q])
  ultimately show ?thesis using i by blast
qed

lemma coerce_item_dict_error:
  assumes "coerce_item rt (PDict d) = Inl e"
  shows "e = OverflowError \<and>
     (\<exists>i. (map_of d ''quantity'' = Some (PInt i) \<or> map_of d ''price'' = Some (PInt i)) \<and>
          2 ^ 53 < \<bar>i\<bar>)"
proof (cases "coerce_field rt ''quantity'' d")
  case (Inl e')
  with assms have "e' = e" by (simp add: coerce_item_def)
  with Inl have "coerce_field rt ''quantity'' d = Inl e" by simp
  from coerce_field_error[OF this] show ?thesis by blast
next
  case (Inr d1)
  with assms have p: "coerce_field rt ''price'' d1 = Inl e"
    by (simp add: coerce_item_def split: sum.splits)
  from coerce_field_error[OF p] obtain i where
    "e = OverflowError" "map_of d1 ''price'' = Some (PInt i)" "2 ^ 53 < \<bar>i\<bar>" by blast
  moreover have "map_of d1 ''price'' = map_of d ''price''"
    by (simp add: map_of_coerce_field[OF Inr])
  ultimately show ?thesis by auto
qed

lemma coerce_items_nth:
  "coerce_items rt items = Inr items' \<Longrightarrow>
   length items' = length items \<and>
   (\<forall>n<length items. coerce_item rt (items ! n) = Inr (items' ! n))"
proof (induction items arbitrary: items')
  case Nil
  then show ?case by simp
next
  case (Cons a items)
  then obtain a' r' where a: "coerce_item rt a = Inr a'" and r: "coerce_items rt items = Inr r'"
    and i: "items' = a' # r'"
    by (auto split: sum.splits)
  from Cons.IH[OF r] a i show ?case
    by (auto simp: nth_Cons split: nat.splits)
qed

lemma map_of_coerce_order_items:
  "coerce_order_items rt d = Inr d' \<Longrightarrow> k \<noteq> ''items'' \<Longrightarrow> map_of d' k = map_of d k"
  by (auto simp: coerce_order_items_def map_of_dict_set
      split: sum.splits option.splits pyval.splits list.splits)

lemma coerce_order_items_list:
  assumes "coerce_order_items rt d = Inr d'" and "map_of d ''items'' = Some (PList items)"
  shows "\<exists>items'. map_of d' ''items'' = Some (PList items') \<and> coerce_items rt items = Inr items'"
proof (cases items)
  case Nil
  with assms show ?thesis
    by (auto simp: coerce_order_items_def get_default_def py_or_def)
next
  case (Cons x xs)
  with assms show ?thesis
    by (auto simp: coerce_order_items_def get_default_def py_or_def map_of_dict_set
        split: sum.splits)
qed

text \<open>A successful \<open>place_order\<close> appends exactly one document: the stamped and coerced
  order, with its identifier in front.\<close>

lemma place_order_Inr:
  assumes "place_order rt (Some coll) now new_id order = Inr coll'"
  shows "\<exists>d1 d2. coerce_field rt ''total'' (stamp_order now order) = Inr d1 \<and>
     coerce_order_items rt d1 = Inr d2 \<and>
     coll' = coll @ [(''_id'', get_default d2 ''_id'' (PObjectId new_id))
                     # filter (\<lambda>kv. fst kv \<noteq> ''_id'') d2]"
  using assms
  by (auto simp: place_order_def prepare_order_def insert_one_def Let_def
      split: sum.splits if_splits)

section \<open>The claims\<close>

text \<open>
  C1. When the database handle is absent, \<open>get_orders\<close> returns the empty list,
  \<open>get_daily_summary\<close> returns the summary with zero counts and empty lists, and
  \<open>place_order\<close>, \<open>update_order_status\<close> and \<open>edit_order\<close> each raise the
  \<open>RuntimeError\<close> that reports the missing connection.
\<close>

theorem unavailable_store:
  "get_orders rt None = [] \<and>
   get_daily_summary rt None now =
     Inr \<lparr>total_orders = 0, total_revenue = NInt 0, total_items_sold = NInt 0,
          popular_sweets = [], orders = []\<rparr> \<and>
   place_order rt None now new_id order =
     Inl (RuntimeError ''Database not connected: cannot place order'') \<and>
   update_order_status rt None now order_id status =
     Inl (RuntimeError ''Database not connected: cannot update order status'') \<and>
   edit_order rt None now order_id updates =
     Inl (RuntimeError ''Database not connected: cannot edit order'')"
  by (simp add: get_orders_def get_daily_summary_def place_order_def update_order_status_def
      edit_order_def)

text \<open>
  C2, as the code has it. When \<open>place_order\<close> succeeds it appends one document, and
  that document's \<open>total\<close> is: absent when the input has no \<open>total\<close> key; the float
  \<open>0.0\<close> when the value is falsy (\<open>None\<close>, \<open>0\<close>, an empty string); the value as a
  float when \<open>float()\<close> converts it; and the integer \<open>0\<close> when \<open>float()\<close> raises
  \<open>ValueError\<close> or \<open>TypeError\<close>. The coercion of \<open>total\<close> raises nothing but the
  \<open>OverflowError\<close> of an integer beyond \<open>2^53\<close> that is too large for a double.
\<close>

theorem place_order_total:
  "(place_order rt (Some coll) now new_id order = Inr coll' \<longrightarrow>
      (\<exists>doc. coll' = coll @ [doc] \<and>
         map_of doc ''total'' =
           map_option
             (\<lambda>v. if \<not> truthy v then PFloat (Fin 0)
                   else (case float_py rt v of Inr f \<Rightarrow> PFloat f | Inl e \<Rightarrow> PInt 0))
             (map_of order ''total''))) \<and>
   (\<forall>e. coerce_field rt ''total'' (stamp_order now order) = Inl e \<longrightarrow>
      e = OverflowError \<and> (\<exists>i. map_of order ''total'' = Some (PInt i) \<and> 2 ^ 53 < \<bar>i\<bar>))"
proof (intro conjI impI allI)
  assume "place_order rt (Some coll) now new_id order = Inr coll'"
  from place_order_Inr[OF this] obtain d1 d2 where
    c: "coerce_field rt ''total'' (stamp_order now order) = Inr d1" and
    i: "coerce_order_items rt d1 = Inr d2" and
    coll': "coll' = coll @ [(''_id'', get_default d2 ''_id'' (PObjectId new_id))
                            # filter (\<lambda>kv. fst kv \<noteq> ''_id'') d2]"
    by blast
  let ?doc = "(''_id'', get_default d2 ''_id'' (PObjectId new_id))
              # filter (\<lambda>kv. fst kv \<noteq> ''_id'') d2"
  have "map_of ?doc ''total'' = map_of d2 ''total''"
    by (simp add: map_of_filter_other)
  also have "\<dots> = map_of d1 ''total''"
    using i by (simp add: map_of_coerce_order_items)
  also have "\<dots> = map_option
             (\<lambda>v. if \<not> truthy v then PFloat (Fin 0)
                   else (case float_py rt v of Inr f \<Rightarrow> PFloat f | Inl e \<Rightarrow> PInt 0))
             (map_of order ''total'')"
    by (simp add: map_of_coerce_field[OF c] map_of_stamp_order)
  finally show "\<exists>doc. coll' = coll @ [doc] \<and>
         map_of doc ''total'' =
           map_option
             (\<lambda>v. if \<not> truthy v then PFloat (Fin 0)
                   else (case float_py rt v of Inr f \<Rightarrow> PFloat f | Inl e \<Rightarrow> PInt 0))
             (map_of order ''total'')"
    using coll' by blast
next
  fix e
  assume "coerce_field rt ''total'' (stamp_order now order) = Inl e"
  from coerce_field_error[OF this]
  show "e = OverflowError" "\<exists>i. map_of order ''total'' = Some (PInt i) \<and> 2 ^ 53 < \<bar>i\<bar>"
    by (simp_all add: map_of_stamp_order)
qed

theorem place_order_total_witness:
  "place_order exact_runtime (Some []) example_now example_id
     [(''customerName'', PStr ''Asha''), (''total'', PStr ''12.5'')]
   = Inr [[(''_id'', PObjectId example_id), (''customerName'', PStr ''Asha''),
           (''total'', PFloat (Fin (25 / 2))), (''orderDate'', PStr ''2024-03-05''),
           (''createdAt'', PDatetime example_now)]] \<and>
   (\<exists>doc. [[(''_id'', PObjectId example_id), (''customerName'', PStr ''Asha''),
            (''total'', PFloat (Fin (25 / 2))), (''orderDate'', PStr ''2024-03-05''),
            (''createdAt'', PDatetime example_now)]] = [] @ [doc] \<and>
      map_of doc ''total'' = Some (PFloat (Fin (25 / 2))))"
proof -
  let ?order = "[(''customerName'', PStr ''Asha''), (''total'', PStr ''12.5'')]"
  let ?doc = "[(''_id'', PObjectId example_id), (''customerName'', PStr ''Asha''),
      (''total'', PFloat (Fin (25 / 2))), (''orderDate'', PStr ''2024-03-05''),
      (''createdAt'', PDatetime example_now)]"
  have run: "place_order exact_runtime (Some []) example_now example_id ?order = Inr [?doc]"
    by (simp add: place_defs runtime_defs)
  have f: "float_py exact_runtime (PStr ''12.5'') = Inr (Fin (25 / 2))"
    by (simp add: runtime_defs)
  from place_order_total [of exact_runtime "[]" example_now example_id ?order "[?doc]"] run f
  show ?thesis by simp
qed

text \<open>C2 as stated fails: an order without \<open>total\<close> is stored without \<open>total\<close>, not
  with the float \<open>0\<close>, and a non-numeric \<open>total\<close> is stored as the integer \<open>0\<close>.\<close>

theorem place_order_total_counterexample:
  "place_order exact_runtime (Some []) example_now example_id [(''customerName'', PStr ''Asha'')]
   = Inr [[(''_id'', PObjectId example_id), (''customerName'', PStr ''Asha''),
           (''orderDate'', PStr ''2024-03-05''), (''createdAt'', PDatetime example_now)]] \<and>
   place_order exact_runtime (Some []) example_now example_id
     [(''customerName'', PStr ''Asha''), (''total'', PStr ''abc'')]
   = Inr [[(''_id'', PObjectId example_id), (''customerName'', PStr ''Asha''),
           (''total'', PInt 0), (''orderDate'', PStr ''2024-03-05''),
           (''createdAt'', PDatetime example_now)]]"
  by (simp add: place_defs runtime_defs)

text \<open>
  C3, as the code has it. When \<open>place_order\<close> succeeds on an order whose \<open>items\<close> is
  a list, the stored \<open>items\<close> is a list of the same length, and every item that is a
  dictionary is stored with the same keys in the same order, every field other than
  \<open>quantity\<close> and \<open>price\<close> unchanged, and each of \<open>quantity\<close> and \<open>price\<close>,
  independently of the other: absent when the item has no such key, the float \<open>0.0\<close>
  when the value is falsy, the value as a float when \<open>float()\<close> converts it, and the
  integer \<open>0\<close> when \<open>float()\<close> raises \<open>ValueError\<close> or \<open>TypeError\<close>. On an item
  that is a dictionary, the coercion raises nothing but the \<open>OverflowError\<close> of an
  integer beyond \<open>2^53\<close> that is too large for a double.
\<close>

theorem place_order_items:
  "(place_order rt (Some coll) now new_id order = Inr coll' \<and>
    map_of order ''items'' = Some (PList items) \<longrightarrow>
      (\<exists>doc items'. coll' = coll @ [doc] \<and> map_of doc ''items'' = Some (PList items') \<and>
         length items' = length items \<and>
         (\<forall>n<length items. \<forall>item. items ! n = PDict item \<longrightarrow>
            (\<exists>item'. items' ! n = PDict item' \<and> map fst item' = map fst item \<and>
               (\<forall>k. map_of item' k =
                  (if k = ''quantity'' \<or> k = ''price''
                   then map_option
                          (\<lambda>v. if \<not> truthy v then PFloat (Fin 0)
                                else (case float_py rt v of
                                        Inr f \<Rightarrow> PFloat f | Inl e \<Rightarrow> PInt 0))
                          (map_of item k)
                   else map_of item k)))))) \<and>
   (\<forall>item e. coerce_item rt (PDict item) = Inl e \<longrightarrow>
      e = OverflowError \<and>
      (\<exists>i. (map_of item ''quantity'' = Some (PInt i) \<or> map_of item ''price'' = Some (PInt i)) \<and>
           2 ^ 53 < \<bar>i\<bar>))"
proof (intro conjI impI allI)
  assume "place_order rt (Some coll) now new_id order = Inr coll' \<and>
    map_of order ''items'' = Some (PList items)"
  then have ok: "place_order rt (Some coll) now new_id order = Inr coll'"
    and its: "map_of order ''items'' = Some (PList items)" by simp_all
  from place_order_Inr[OF ok] obtain d1 d2 where
    c: "coerce_field rt ''total'' (stamp_order now order) = Inr d1" and
    i: "coerce_order_items rt d1 = Inr d2" and
    coll': "coll' = coll @ [(''_id'', get_default d2 ''_id'' (PObjectId new_id))
                            # filter (\<lambda>kv. fst kv \<noteq> ''_id'') d2]"
    by blast
  let ?doc = "(''_id'', get_default d2 ''_id'' (PObjectId new_id))
              # filter (\<lambda>kv. fst kv \<noteq> ''_id'') d2"
  have "map_of d1 ''items'' = Some (PList items)"
    using its by (simp add: map_of_coerce_field[OF c] map_of_stamp_order)
  from coerce_order_items_list[OF i this] obtain items' where
    m: "map_of d2 ''items'' = Some (PList items')" and ci: "coerce_items rt items = Inr items'"
    by blast
  have doc_items: "map_of ?doc ''items'' = Some (PList items')"
    using m by (simp add: map_of_filter_other)
  from coerce_items_nth[OF ci] have len: "length items' = length items"
    and nth: "\<And>n. n < length items \<Longrightarrow> coerce_item rt (items ! n) = Inr (items' ! n)"
    by simp_all
  have "\<forall>n<length items. \<forall>item. items ! n = PDict item \<longrightarrow>
            (\<exists>item'. items' ! n = PDict item' \<and> map fst item' = map fst item \<and>
               (\<forall>k. map_of item' k =
                  (if k = ''quantity'' \<or> k = ''price''
                   then map_option
                          (\<lambda>v. if \<not> truthy v then PFloat (Fin 0)
                                else (case float_py rt v of
                                        Inr f \<Rightarrow> PFloat f | Inl e \<Rightarrow> PInt 0))
                          (map_of item k)
                   else map_of item k)))"
  proof (intro allI impI)
    fix n item
    assume "n < length items" "items ! n = PDict item"
    with nth[of n] have "coerce_item rt (PDict item) = Inr (items' ! n)" by simp
    from coerce_item_dict[OF this]
    show "\<exists>item'. items' ! n = PDict item' \<and> map fst item' = map fst item \<and>
               (\<forall>k. map_of item' k =
                  (if k = ''quantity'' \<or> k = ''price''
                   then map_option
                          (\<lambda>v. if \<not> truthy v then PFloat (Fin 0)
                                else (case float_py rt v of
                                        Inr f \<Rightarrow> PFloat f | Inl e \<Rightarrow> PInt 0))
                          (map_of item k)
                   else map_of item k))" .
  qed
  with coll' doc_items len
  show "\<exists>doc items'. coll' = coll @ [doc] \<and> map_of doc ''items'' = Some (PList items') \<and>
         length items' = length items \<and>
         (\<forall>n<length items. \<forall>item. items ! n = PDict item \<longrightarrow>
            (\<exists>item'. items' ! n = PDict item' \<and> map fst item' = map fst item \<and>
               (\<forall>k. map_of item' k =
                  (if k = ''quantity'' \<or> k = ''price''
                   then map_option
                          (\<lambda>v. if \<not> truthy v then PFloat (Fin 0)
                                else (case float_py rt v of
                                        Inr f \<Rightarrow> PFloat f | Inl e \<Rightarrow> PInt 0))
                          (map_of item k)
                   else map_of item k))))"
    by blast
next
  fix item e
  assume "coerce_item rt (PDict item) = Inl e"
  from coerce_item_dict_error[OF this]
  show "e = OverflowError"
    "\<exists>i. (map_of item ''quantity'' = Some (PInt i) \<or> map_of item ''price'' = Some (PInt i)) \<and>
           2 ^ 53 < \<bar>i\<bar>" by simp_all
qed

theorem place_order_items_witness:
  "place_order exact_runtime (Some []) example_now example_id
     [(''items'', PList [PDict [(''name'', PStr ''laddu''), (''quantity'', PStr ''2''),
                                (''price'', PStr ''abc'')]])]
   = Inr [[(''_id'', PObjectId example_id),
           (''items'', PList [PDict [(''name'', PStr ''laddu''), (''quantity'', PFloat (Fin 2)),
                                     (''price'', PInt 0)]]),
           (''orderDate'', PStr ''2024-03-05''), (''createdAt'', PDatetime example_now)]] \<and>
   (\<exists>doc items'.
      [[(''_id'', PObjectId example_id),
        (''items'', PList [PDict [(''name'', PStr ''laddu''), (''quantity'', PFloat (Fin 2)),
                                  (''price'', PInt 0)]]),
        (''orderDate'', PStr ''2024-03-05''), (''createdAt'', PDatetime example_now)]]
        = [] @ [doc] \<and>
      map_of doc ''items'' = Some (PList items') \<and> length items' = 1)"
proof -
  let ?items = "[PDict [(''name'', PStr ''laddu''), (''quantity'', PStr ''2''),
                        (''price'', PStr ''abc'')]]"
  let ?doc = "[(''_id'', PObjectId example_id),
           (''items'', PList [PDict [(''name'', PStr ''laddu''), (''quantity'', PFloat (Fin 2)),
                                     (''price'', PInt 0)]]),
           (''orderDate'', PStr ''2024-03-05''), (''createdAt'', PDatetime example_now)]"
  have run: "place_order exact_runtime (Some []) example_now example_id
               [(''items'', PList ?items)] = Inr [?doc]"
    by (simp add: place_defs runtime_defs)
  have its: "map_of [(''items'', PList ?items)] ''items'' = Some (PList ?items)"
    by simp
  from place_order_items [of exact_runtime "[]" example_now example_id
      "[(''items'', PList ?items)]" "[?doc]" ?items] run its
  have "\<exists>doc items'. [?doc] = [] @ [doc] \<and> map_of doc ''items'' = Some (PList items') \<and>
      length items' = length ?items"
    by blast
  with run show ?thesis by simp
qed

text \<open>C3 as stated fails: a line item without \<open>quantity\<close> is stored without
  \<open>quantity\<close>, not with \<open>0\<close>.\<close>

theorem place_order_items_counterexample:
  "place_order exact_runtime (Some []) example_now example_id
     [(''items'', PList [PDict [(''name'', PStr ''laddu''), (''price'', PStr ''12.5'')]])]
   = Inr [[(''_id'', PObjectId example_id),
           (''items'', PList [PDict [(''name'', PStr ''laddu''),
                                     (''price'', PFloat (Fin (25 / 2)))]]),
           (''orderDate'', PStr ''2024-03-05''), (''createdAt'', PDatetime example_now)]]"
  by (simp add: place_defs runtime_defs)

section \<open>Properties of the normalisation, the sort and the daily query\<close>

lemma map_of_filter_self:
  "map_of (filter (\<lambda>kv. fst kv \<noteq> k0) d) k0 = None"
  by (induction d) auto

lemma map_of_without_id:
  "map_of (without_id d) k = (if k = ''_id'' then None else map_of d k)"
  by (simp add: without_id_def map_of_filter_self map_of_filter_other)

lemma keys_dict_set_present:
  "map_of d k = Some v' \<Longrightarrow> map fst (dict_set d k v) = map fst d"
  by (simp add: keys_dict_set domI dom_map_of_conv_image_fst[symmetric])

lemma serialize_datetimes_fields:
  "\<exists>d'. serialize_datetimes d = d' \<and> map fst d' = map fst d \<and>
     (\<forall>k. map_of d' k =
        (if k = ''createdAt'' \<or> k = ''updatedAt''
         then map_option (\<lambda>v. case v of PDatetime t \<Rightarrow> PStr (strftime_datetime t) | _ \<Rightarrow> v)
                (map_of d k)
         else map_of d k))"
  by (auto simp: serialize_datetimes_def Let_def map_of_dict_set keys_dict_set_present
      split: option.splits pyval.splits)

lemma serialize_order_fields:
  assumes "d \<noteq> []"
  shows "\<exists>d'. serialize_order rt d = PDict d' \<and> map fst d' = map fst d \<and>
     (\<forall>k. map_of d' k =
        (if k = ''_id''
         then map_option (\<lambda>v. if v = PNone then PNone else PStr (py_str rt v)) (map_of d k)
         else if k = ''createdAt'' \<or> k = ''updatedAt''
         then map_option (\<lambda>v. case v of PDatetime t \<Rightarrow> PStr (strftime_datetime t) | _ \<Rightarrow> v)
                (map_of d k)
         else map_of d k))"
proof -
  let ?d1 = "(case map_of d ''_id'' of None \<Rightarrow> d | Some PNone \<Rightarrow> d
              | Some v \<Rightarrow> dict_set d ''_id'' (PStr (py_str rt v)))"
  have k1: "map fst ?d1 = map fst d"
    by (auto simp: keys_dict_set_present split: option.splits pyval.splits)
  have m1: "\<And>k. map_of ?d1 k =
      (if k = ''_id''
       then map_option (\<lambda>v. if v = PNone then PNone else PStr (py_str rt v)) (map_of d k)
       else map_of d k)"
    by (auto simp: map_of_dict_set split: option.splits pyval.splits)
  from serialize_datetimes_fields[of ?d1] k1 m1 assms show ?thesis
    by (auto simp: serialize_order_def)
qed

lemma set_insert_desc: "set (insert_desc lt x ys) = insert x (set ys)"
  by (induction ys) auto


lemma set_sorted_rev: "set (sorted_rev lt xs) = set xs"
  by (induction xs) (simp_all add: sorted_rev_def set_insert_desc)




lemma get_daily_summary_Inr:
  assumes "get_daily_summary rt (Some coll) now = Inr s"
  shows "total_orders s = length (today_orders coll now) \<and>
         orders s = map (serialize_order rt) (today_orders coll now) \<and>
         (\<exists>st. orders_loop rt (NInt 0, []) (today_orders coll now) = Inr st \<and>
               total_items_sold s = fst st \<and>
               popular_sweets s = take 5 (sorted_rev quantity_lt (snd st))) \<and>
         sum_revenue rt (NInt 0) (today_orders coll now) = Inr (total_revenue s)"
  using assms
  by (auto simp: get_daily_summary_def Let_def split: sum.splits)

lemmas summary_defs =
  get_daily_summary_def today_orders_def is_today_def field_matches_def without_id_def
  sort_created_desc_def sorted_rev_def created_lt_def created_key_def
  num_add_def num_mul_def item_step_def bump_def key_eq_def num_eq_def
  quantity_lt_def num_lt_def float_lt_def
  serialize_order_def serialize_datetimes_def py_str_def get_orders_def


lemma filter_is_today_drop:
  "\<not> is_today now d \<Longrightarrow>
   filter (is_today now) (pre @ d # post) = filter (is_today now) (pre @ post)"
  by simp

text \<open>
  C4, as the code has it. The \<open>orders\<close> of the daily summary are today's documents,
  newest first, each passed through \<open>_serialize_order\<close> after the projection
  \<^verbatim>\<open>{"_id": 0}\<close> has removed the identifier. A normalised order therefore has no
  \<open>_id\<close> field; its \<open>createdAt\<close> and \<open>updatedAt\<close> are rendered as
  \<open>YYYY-MM-DD HH:MM:SS\<close> strings when they are datetimes; and every other field,
  \<open>orderDate\<close> and \<open>deliveryDate\<close> among them, is as stored, in the same order.
\<close>

theorem summary_orders_serialized:
  "(get_daily_summary rt (Some coll) now = Inr s \<longrightarrow>
      orders s = map (\<lambda>d. serialize_order rt (without_id d))
                   (sort_created_desc (filter (is_today now) coll))) \<and>
   (\<forall>d. without_id d \<noteq> [] \<longrightarrow>
      (\<exists>d'. serialize_order rt (without_id d) = PDict d' \<and>
         map fst d' = map fst (without_id d) \<and>
         map_of d' ''_id'' = None \<and>
         (\<forall>k. k \<noteq> ''_id'' \<longrightarrow>
            map_of d' k =
              (if k = ''createdAt'' \<or> k = ''updatedAt''
               then map_option
                      (\<lambda>v. case v of PDatetime t \<Rightarrow> PStr (strftime_datetime t) | _ \<Rightarrow> v)
                      (map_of d k)
               else map_of d k))))"
proof (intro conjI impI allI)
  assume "get_daily_summary rt (Some coll) now = Inr s"
  from get_daily_summary_Inr[OF this]
  show "orders s = map (\<lambda>d. serialize_order rt (without_id d))
                   (sort_created_desc (filter (is_today now) coll))"
    by (simp add: today_orders_def)
next
  fix d
  assume "without_id d \<noteq> []"
  from serialize_order_fields[OF this, of rt] obtain d' where
    s: "serialize_order rt (without_id d) = PDict d'" and
    k: "map fst d' = map fst (without_id d)" and
    m: "\<And>k. map_of d' k =
        (if k = ''_id''
         then map_option (\<lambda>v. if v = PNone then PNone else PStr (py_str rt v))
                (map_of (without_id d) k)
         else if k = ''createdAt'' \<or> k = ''updatedAt''
         then map_option (\<lambda>v. case v of PDatetime t \<Rightarrow> PStr (strftime_datetime t) | _ \<Rightarrow> v)
                (map_of (without_id d) k)
         else map_of (without_id d) k)"
    by blast
  have "map_of d' ''_id'' = None"
    by (simp add: m map_of_without_id)
  moreover have "\<forall>k. k \<noteq> ''_id'' \<longrightarrow>
            map_of d' k =
              (if k = ''createdAt'' \<or> k = ''updatedAt''
               then map_option
                      (\<lambda>v. case v of PDatetime t \<Rightarrow> PStr (strftime_datetime t) | _ \<Rightarrow> v)
                      (map_of d k)
               else map_of d k)"
    by (simp add: m map_of_without_id)
  ultimately show "\<exists>d'. serialize_order rt (without_id d) = PDict d' \<and>
         map fst d' = map fst (without_id d) \<and>
         map_of d' ''_id'' = None \<and>
         (\<forall>k. k \<noteq> ''_id'' \<longrightarrow>
            map_of d' k =
              (if k = ''createdAt'' \<or> k = ''updatedAt''
               then map_option
                      (\<lambda>v. case v of PDatetime t \<Rightarrow> PStr (strftime_datetime t) | _ \<Rightarrow> v)
                      (map_of d k)
               else map_of d k))"
    using s k by blast
qed

theorem summary_orders_serialized_witness:
  "get_daily_summary exact_runtime
     (Some [[(''_id'', PObjectId example_id), (''customerName'', PStr ''Asha''),
             (''orderDate'', PStr ''2024-03-05''), (''deliveryDate'', PStr ''2024-03-08''),
             (''createdAt'', PDatetime example_now)]])
     example_now
   = Inr \<lparr>total_orders = 1, total_revenue = NFloat (Fin 0), total_items_sold = NInt 0,
          popular_sweets = [],
          orders = [PDict [(''customerName'', PStr ''Asha''), (''orderDate'', PStr ''2024-03-05''),
                           (''deliveryDate'', PStr ''2024-03-08''),
                           (''createdAt'', PStr ''2024-03-05 14:07:09'')]]\<rparr> \<and>
   [PDict [(''customerName'', PStr ''Asha''), (''orderDate'', PStr ''2024-03-05''),
           (''deliveryDate'', PStr ''2024-03-08''),
           (''createdAt'', PStr ''2024-03-05 14:07:09'')]]
   = map (\<lambda>d. serialize_order exact_runtime (without_id d))
       (sort_created_desc (filter (is_today example_now)
          [[(''_id'', PObjectId example_id), (''customerName'', PStr ''Asha''),
            (''orderDate'', PStr ''2024-03-05''), (''deliveryDate'', PStr ''2024-03-08''),
            (''createdAt'', PDatetime example_now)]]))"
proof -
  let ?coll = "[[(''_id'', PObjectId example_id), (''customerName'', PStr ''Asha''),
             (''orderDate'', PStr ''2024-03-05''), (''deliveryDate'', PStr ''2024-03-08''),
             (''createdAt'', PDatetime example_now)]]"
  let ?s = "\<lparr>total_orders = 1, total_revenue = NFloat (Fin 0), total_items_sold = NInt 0,
          popular_sweets = [],
          orders = [PDict [(''customerName'', PStr ''Asha''), (''orderDate'', PStr ''2024-03-05''),
                           (''deliveryDate'', PStr ''2024-03-08''),
                           (''createdAt'', PStr ''2024-03-05 14:07:09'')]]\<rparr>"
  have run: "get_daily_summary exact_runtime (Some ?coll) example_now = Inr ?s"
    by (simp add: summary_defs place_defs runtime_defs)
  from summary_orders_serialized [of exact_runtime ?coll example_now ?s] run
  have "orders ?s = map (\<lambda>d. serialize_order exact_runtime (without_id d))
       (sort_created_desc (filter (is_today example_now) ?coll))"
    by blast
  with run show ?thesis by simp
qed

text \<open>C4 as stated fails: \<open>get_orders\<close> returns the identifier as a string, the
  orders of the summary have no identifier at all.\<close>

theorem summary_orders_serialized_counterexample:
  "get_orders exact_runtime
     (Some [[(''_id'', PObjectId example_id), (''customerName'', PStr ''Asha''),
             (''orderDate'', PStr ''2024-03-05''), (''createdAt'', PDatetime example_now)]])
   = [PDict [(''_id'', PStr example_id), (''customerName'', PStr ''Asha''),
             (''orderDate'', PStr ''2024-03-05''), (''createdAt'', PStr ''2024-03-05 14:07:09'')]] \<and>
   get_daily_summary exact_runtime
     (Some [[(''_id'', PObjectId example_id), (''customerName'', PStr ''Asha''),
             (''orderDate'', PStr ''2024-03-05''), (''createdAt'', PDatetime example_now)]])
     example_now
   = Inr \<lparr>total_orders = 1, total_revenue = NFloat (Fin 0), total_items_sold = NInt 0,
          popular_sweets = [],
          orders = [PDict [(''customerName'', PStr ''Asha''), (''orderDate'', PStr ''2024-03-05''),
                           (''createdAt'', PStr ''2024-03-05 14:07:09'')]]\<rparr>"
  by (simp add: summary_defs place_defs runtime_defs)

section \<open>The loops of the summary compute the specified sums\<close>



lemma small_simps [simp]: "small (NInt 0)" "small (NFloat f)"
  by (simp_all add: small_def)















lemma name_spec_entry [simp]: "name (spec_entry rt ls nm) = nm"
  by (simp add: spec_entry_def)

























section \<open>Properties of the ranking\<close>

lemma mset_insert_desc: "mset (insert_desc lt x ys) = add_mset x (mset ys)"
  by (induction ys) auto

lemma mset_sorted_rev: "mset (sorted_rev lt xs) = mset xs"
  by (induction xs) (simp_all add: sorted_rev_def mset_insert_desc)

lemma sorted_wrt_insert_desc:
  assumes "sorted_wrt ge ys"
    and below: "\<And>y. y \<in> set ys \<Longrightarrow> lt x y \<Longrightarrow> ge y x"
    and above: "\<And>y. y \<in> set ys \<Longrightarrow> \<not> lt x y \<Longrightarrow> ge x y"
    and trans: "\<And>y z. y \<in> set ys \<Longrightarrow> z \<in> set ys \<Longrightarrow> ge x y \<Longrightarrow> ge y z \<Longrightarrow> ge x z"
  shows "sorted_wrt ge (insert_desc lt x ys)"
  using assms
proof (induction ys)
  case Nil
  then show ?case by simp
next
  case (Cons y ys)
  show ?case
  proof (cases "lt x y")
    case True
    have "sorted_wrt ge (insert_desc lt x ys)"
      using Cons.prems by (intro Cons.IH) auto
    moreover have "\<forall>z \<in> set (insert_desc lt x ys). ge y z"
      using Cons.prems(1) Cons.prems(2)[of y] True by (auto simp: set_insert_desc)
    ultimately show ?thesis using True by simp
  next
    case False
    then have xy: "ge x y" using Cons.prems(3)[of y] by simp
    have "\<forall>z \<in> set ys. ge x z"
      using Cons.prems(1) Cons.prems(4)[of y] xy by auto
    with xy False Cons.prems(1) show ?thesis by simp
  qed
qed

lemma float_lt_cases:
  "a \<noteq> NaN \<Longrightarrow> b \<noteq> NaN \<Longrightarrow> float_lt a b \<or> float_lt b a \<or> a = b"
  by (cases a; cases b) (auto simp: float_lt_def)

lemma float_lt_trans: "float_lt a b \<Longrightarrow> float_lt b c \<Longrightarrow> float_lt a c"
  by (cases a; cases b; cases c) (auto simp: float_lt_def)

lemma float_lt_not_NaN: "float_lt a b \<Longrightarrow> a \<noteq> NaN \<and> b \<noteq> NaN"
  by (cases a; cases b) (auto simp: float_lt_def)

lemma num_le_total:
  "num_exact a \<noteq> NaN \<Longrightarrow> num_exact b \<noteq> NaN \<Longrightarrow> \<not> num_lt a b \<Longrightarrow> num_le b a"
  using float_lt_cases[of "num_exact a" "num_exact b"]
  by (auto simp: num_le_def num_lt_def num_eq_def)

lemma num_le_trans: "num_le a b \<Longrightarrow> num_le b c \<Longrightarrow> num_le a c"
  by (auto simp: num_le_def num_lt_def num_eq_def dest: float_lt_trans)

lemma sorted_rev_quantity:
  assumes "\<forall>e \<in> set xs. num_exact (quantity e) \<noteq> NaN"
  shows "sorted_wrt (\<lambda>a b. num_le (quantity b) (quantity a)) (sorted_rev quantity_lt xs)"
  using assms
proof (induction xs)
  case Nil
  then show ?case by (simp add: sorted_rev_def)
next
  case (Cons x xs)
  have step: "sorted_rev quantity_lt (x # xs) = insert_desc quantity_lt x (sorted_rev quantity_lt xs)"
    by (simp add: sorted_rev_def)
  have ih: "sorted_wrt (\<lambda>a b. num_le (quantity b) (quantity a)) (sorted_rev quantity_lt xs)"
    using Cons by simp
  have nn: "\<And>y. y \<in> set (sorted_rev quantity_lt xs) \<Longrightarrow> num_exact (quantity y) \<noteq> NaN"
    using Cons.prems by (simp add: set_sorted_rev)
  have nx: "num_exact (quantity x) \<noteq> NaN" using Cons.prems by simp
  show ?case
    unfolding step
  proof (rule sorted_wrt_insert_desc[OF ih])
    fix y assume "y \<in> set (sorted_rev quantity_lt xs)" "quantity_lt x y"
    then show "num_le (quantity x) (quantity y)"
      by (simp add: quantity_lt_def num_le_def)
  next
    fix y assume "y \<in> set (sorted_rev quantity_lt xs)" "\<not> quantity_lt x y"
    then show "num_le (quantity y) (quantity x)"
      using nn[of y] nx by (simp add: quantity_lt_def num_le_total)
  next
    fix y z
    assume "num_le (quantity y) (quantity x)" "num_le (quantity z) (quantity y)"
    then show "num_le (quantity z) (quantity x)"
      by (blast intro: num_le_trans)
  qed
qed

lemma sorted_wrt_take: "sorted_wrt P xs \<Longrightarrow> sorted_wrt P (take n xs)"
  by (metis append_take_drop_id sorted_wrt_append)

text \<open>
  C9, as the code has it. \<open>popular_sweets\<close> has at most five entries: the first five
  of a rearrangement of all the per-name aggregates. Whenever no aggregated quantity is
  NaN, that rearrangement, and with it \<open>popular_sweets\<close>, is sorted by quantity in
  descending order.
\<close>

theorem popular_sweets_ranked:
  "get_daily_summary rt (Some coll) now = Inr s \<longrightarrow>
     length (popular_sweets s) \<le> 5 \<and>
     (\<exists>st ranked.
        orders_loop rt (NInt 0, []) (today_orders coll now) = Inr st \<and>
        mset ranked = mset (snd st) \<and>
        popular_sweets s = take 5 ranked \<and>
        ((\<forall>e \<in> set (snd st). num_exact (quantity e) \<noteq> NaN) \<longrightarrow>
           sorted_wrt (\<lambda>a b. num_le (quantity b) (quantity a)) ranked \<and>
           sorted_wrt (\<lambda>a b. num_le (quantity b) (quantity a)) (popular_sweets s)))"
proof
  assume "get_daily_summary rt (Some coll) now = Inr s"
  from get_daily_summary_Inr[OF this] obtain st where
    loop: "orders_loop rt (NInt 0, []) (today_orders coll now) = Inr st" and
    pop: "popular_sweets s = take 5 (sorted_rev quantity_lt (snd st))"
    by blast
  let ?ranked = "sorted_rev quantity_lt (snd st)"
  have len: "length (popular_sweets s) \<le> 5"
    by (simp add: pop)
  have perm: "mset ?ranked = mset (snd st)"
    by (rule mset_sorted_rev)
  have srt: "(\<forall>e \<in> set (snd st). num_exact (quantity e) \<noteq> NaN) \<longrightarrow>
           sorted_wrt (\<lambda>a b. num_le (quantity b) (quantity a)) ?ranked \<and>
           sorted_wrt (\<lambda>a b. num_le (quantity b) (quantity a)) (popular_sweets s)"
    by (simp add: pop sorted_rev_quantity sorted_wrt_take)
  from len loop perm pop srt
  show "length (popular_sweets s) \<le> 5 \<and>
     (\<exists>st ranked.
        orders_loop rt (NInt 0, []) (today_orders coll now) = Inr st \<and>
        mset ranked = mset (snd st) \<and>
        popular_sweets s = take 5 ranked \<and>
        ((\<forall>e \<in> set (snd st). num_exact (quantity e) \<noteq> NaN) \<longrightarrow>
           sorted_wrt (\<lambda>a b. num_le (quantity b) (quantity a)) ranked \<and>
           sorted_wrt (\<lambda>a b. num_le (quantity b) (quantity a)) (popular_sweets s)))"
    by blast
qed

theorem popular_sweets_ranked_witness:
  "get_daily_summary exact_runtime
     (Some [[(''_id'', PObjectId example_id), (''orderDate'', PStr ''2024-03-05''),
             (''items'', PList
                [PDict [(''sweetName'', PStr ''laddu''), (''quantity'', PFloat (Fin 3))],
                 PDict [(''name'', PStr ''barfi''), (''quantity'', PFloat (Fin 7))],
                 PDict [(''sweetName'', PStr ''jalebi''), (''quantity'', PFloat (Fin 1))],
                 PDict [(''sweetName'', PStr ''peda''), (''quantity'', PFloat (Fin 9))],
                 PDict [(''sweetName'', PStr ''laddu''), (''quantity'', PFloat (Fin 5))],
                 PDict [(''quantity'', PFloat (Fin 2))],
                 PDict [(''sweetName'', PStr ''halwa''), (''quantity'', PStr ''many'')]])]])
     example_now
   = Inr \<lparr>total_orders = 1, total_revenue = NFloat (Fin 0), total_items_sold = NFloat (Fin 27),
          popular_sweets =
            [\<lparr>name = PStr ''peda'', quantity = NFloat (Fin 9), revenue = NFloat (Fin 0)\<rparr>,
             \<lparr>name = PStr ''laddu'', quantity = NFloat (Fin 8), revenue = NFloat (Fin 0)\<rparr>,
             \<lparr>name = PStr ''barfi'', quantity = NFloat (Fin 7), revenue = NFloat (Fin 0)\<rparr>,
             \<lparr>name = PStr ''Unknown'', quantity = NFloat (Fin 2), revenue = NFloat (Fin 0)\<rparr>,
             \<lparr>name = PStr ''jalebi'', quantity = NFloat (Fin 1), revenue = NFloat (Fin 0)\<rparr>],
          orders =
            [PDict [(''orderDate'', PStr ''2024-03-05''),
               (''items'', PList
                [PDict [(''sweetName'', PStr ''laddu''), (''quantity'', PFloat (Fin 3))],
                 PDict [(''name'', PStr ''barfi''), (''quantity'', PFloat (Fin 7))],
                 PDict [(''sweetName'', PStr ''jalebi''), (''quantity'', PFloat (Fin 1))],
                 PDict [(''sweetName'', PStr ''peda''), (''quantity'', PFloat (Fin 9))],
                 PDict [(''sweetName'', PStr ''laddu''), (''quantity'', PFloat (Fin 5))],
                 PDict [(''quantity'', PFloat (Fin 2))],
                 PDict [(''sweetName'', PStr ''halwa''), (''quantity'', PStr ''many'')]])]]\<rparr> \<and>
   sorted_wrt (\<lambda>a b. num_le (quantity b) (quantity a))
     [\<lparr>name = PStr ''peda'', quantity = NFloat (Fin 9), revenue = NFloat (Fin 0)\<rparr>,
      \<lparr>name = PStr ''laddu'', quantity = NFloat (Fin 8), revenue = NFloat (Fin 0)\<rparr>,
      \<lparr>name = PStr ''barfi'', quantity = NFloat (Fin 7), revenue = NFloat (Fin 0)\<rparr>,
      \<lparr>name = PStr ''Unknown'', quantity = NFloat (Fin 2), revenue = NFloat (Fin 0)\<rparr>,
      \<lparr>name = PStr ''jalebi'', quantity = NFloat (Fin 1), revenue = NFloat (Fin 0)\<rparr>]"
proof -
  let ?items = "PList
                [PDict [(''sweetName'', PStr ''laddu''), (''quantity'', PFloat (Fin 3))],
                 PDict [(''name'', PStr ''barfi''), (''quantity'', PFloat (Fin 7))],
                 PDict [(''sweetName'', PStr ''jalebi''), (''quantity'', PFloat (Fin 1))],
                 PDict [(''sweetName'', PStr ''peda''), (''quantity'', PFloat (Fin 9))],
                 PDict [(''sweetName'', PStr ''laddu''), (''quantity'', PFloat (Fin 5))],
                 PDict [(''quantity'', PFloat (Fin 2))],
                 PDict [(''sweetName'', PStr ''halwa''), (''quantity'', PStr ''many'')]]"
  let ?coll = "[[(''_id'', PObjectId example_id), (''orderDate'', PStr ''2024-03-05''),
                 (''items'', ?items)]]"
  let ?top = "[\<lparr>name = PStr ''peda'', quantity = NFloat (Fin 9), revenue = NFloat (Fin 0)\<rparr>,
             \<lparr>name = PStr ''laddu'', quantity = NFloat (Fin 8), revenue = NFloat (Fin 0)\<rparr>,
             \<lparr>name = PStr ''barfi'', quantity = NFloat (Fin 7), revenue = NFloat (Fin 0)\<rparr>,
             \<lparr>name = PStr ''Unknown'', quantity = NFloat (Fin 2), revenue = NFloat (Fin 0)\<rparr>,
             \<lparr>name = PStr ''jalebi'', quantity = NFloat (Fin 1), revenue = NFloat (Fin 0)\<rparr>]"
  let ?s = "\<lparr>total_orders = 1, total_revenue = NFloat (Fin 0), total_items_sold = NFloat (Fin 27),
          popular_sweets = ?top,
          orders = [PDict [(''orderDate'', PStr ''2024-03-05''), (''items'', ?items)]]\<rparr>"
  let ?stats = "[\<lparr>name = PStr ''laddu'', quantity = NFloat (Fin 8), revenue = NFloat (Fin 0)\<rparr>,
             \<lparr>name = PStr ''barfi'', quantity = NFloat (Fin 7), revenue = NFloat (Fin 0)\<rparr>,
             \<lparr>name = PStr ''jalebi'', quantity = NFloat (Fin 1), revenue = NFloat (Fin 0)\<rparr>,
             \<lparr>name = PStr ''peda'', quantity = NFloat (Fin 9), revenue = NFloat (Fin 0)\<rparr>,
             \<lparr>name = PStr ''Unknown'', quantity = NFloat (Fin 2), revenue = NFloat (Fin 0)\<rparr>,
             \<lparr>name = PStr ''halwa'', quantity = NInt 0, revenue = NFloat (Fin 0)\<rparr>]"
  have loop: "orders_loop exact_runtime (NInt 0, []) (today_orders ?coll example_now)
                = Inr (NFloat (Fin 27), ?stats)"
    by (simp add: summary_defs place_defs runtime_defs)
  have run: "get_daily_summary exact_runtime (Some ?coll) example_now = Inr ?s"
    by (simp add: get_daily_summary_def loop Let_def)
       (simp add: summary_defs place_defs runtime_defs)
  have no_nan: "\<forall>e \<in> set ?stats. num_exact (quantity e) \<noteq> NaN"
    by simp
  from popular_sweets_ranked [of exact_runtime ?coll example_now ?s] run loop no_nan
  have "sorted_wrt (\<lambda>a b. num_le (quantity b) (quantity a)) (popular_sweets ?s)"
    by auto
  with run show ?thesis by simp
qed

text \<open>C9 as stated fails: \<open>place_order\<close> stores the quantity \<open>"nan"\<close> as the float
  NaN, every comparison with NaN is false, and the aggregates come back in the order
  1, NaN, 2.\<close>

theorem popular_sweets_ranked_counterexample:
  "place_order exact_runtime (Some []) example_now example_id
     [(''items'', PList [PDict [(''name'', PStr ''laddu''), (''quantity'', PInt 1)],
                         PDict [(''name'', PStr ''barfi''), (''quantity'', PStr ''nan'')],
                         PDict [(''name'', PStr ''jalebi''), (''quantity'', PInt 2)]])]
   = Inr [[(''_id'', PObjectId example_id),
           (''items'', PList [PDict [(''name'', PStr ''laddu''), (''quantity'', PFloat (Fin 1))],
                              PDict [(''name'', PStr ''barfi''), (''quantity'', PFloat NaN)],
                              PDict [(''name'', PStr ''jalebi''), (''quantity'', PFloat (Fin 2))]]),
           (''orderDate'', PStr ''2024-03-05''), (''createdAt'', PDatetime example_now)]] \<and>
   get_daily_summary exact_runtime
     (Some [[(''_id'', PObjectId example_id),
             (''items'', PList [PDict [(''name'', PStr ''laddu''), (''quantity'', PFloat (Fin 1))],
                                PDict [(''name'', PStr ''barfi''), (''quantity'', PFloat NaN)],
                                PDict [(''name'', PStr ''jalebi''), (''quantity'', PFloat (Fin 2))]]),
             (''orderDate'', PStr ''2024-03-05''), (''createdAt'', PDatetime example_now)]])
     example_now
   = Inr \<lparr>total_orders = 1, total_revenue = NFloat (Fin 0), total_items_sold = NFloat NaN,
          popular_sweets =
            [\<lparr>name = PStr ''laddu'', quantity = NFloat (Fin 1), revenue = NFloat (Fin 0)\<rparr>,
             \<lparr>name = PStr ''barfi'', quantity = NFloat NaN, revenue = NFloat NaN\<rparr>,
             \<lparr>name = PStr ''jalebi'', quantity = NFloat (Fin 2), revenue = NFloat (Fin 0)\<rparr>],
          orders =
            [PDict [(''items'', PList
                       [PDict [(''name'', PStr ''laddu''), (''quantity'', PFloat (Fin 1))],
                        PDict [(''name'', PStr ''barfi''), (''quantity'', PFloat NaN)],
                        PDict [(''name'', PStr ''jalebi''), (''quantity'', PFloat (Fin 2))]]),
                    (''orderDate'', PStr ''2024-03-05''),
                    (''createdAt'', PStr ''2024-03-05 14:07:09'')]]\<rparr> \<and>
   \<not> sorted_wrt (\<lambda>a b. num_le (quantity b) (quantity a))
       [\<lparr>name = PStr ''laddu'', quantity = NFloat (Fin 1), revenue = NFloat (Fin 0)\<rparr>,
        \<lparr>name = PStr ''barfi'', quantity = NFloat NaN, revenue = NFloat NaN\<rparr>,
        \<lparr>name = PStr ''jalebi'', quantity = NFloat (Fin 2), revenue = NFloat (Fin 0)\<rparr>]"
proof (intro conjI)
  show "place_order exact_runtime (Some []) example_now example_id
     [(''items'', PList [PDict [(''name'', PStr ''laddu''), (''quantity'', PInt 1)],
                         PDict [(''name'', PStr ''barfi''), (''quantity'', PStr ''nan'')],
                         PDict [(''name'', PStr ''jalebi''), (''quantity'', PInt 2)]])]
   = Inr [[(''_id'', PObjectId example_id),
           (''items'', PList [PDict [(''name'', PStr ''laddu''), (''quantity'', PFloat (Fin 1))],
                              PDict [(''name'', PStr ''barfi''), (''quantity'', PFloat NaN)],
                              PDict [(''name'', PStr ''jalebi''), (''quantity'', PFloat (Fin 2))]]),
           (''orderDate'', PStr ''2024-03-05''), (''createdAt'', PDatetime example_now)]]"
    by (simp add: place_defs runtime_defs)
  show "get_daily_summary exact_runtime
     (Some [[(''_id'', PObjectId example_id),
             (''items'', PList [PDict [(''name'', PStr ''laddu''), (''quantity'', PFloat (Fin 1))],
                                PDict [(''name'', PStr ''barfi''), (''quantity'', PFloat NaN)],
                                PDict [(''name'', PStr ''jalebi''), (''quantity'', PFloat (Fin 2))]]),
             (''orderDate'', PStr ''2024-03-05''), (''createdAt'', PDatetime example_now)]])
     example_now
   = Inr \<lparr>total_orders = 1, total_revenue = NFloat (Fin 0), total_items_sold = NFloat NaN,
          popular_sweets =
            [\<lparr>name = PStr ''laddu'', quantity = NFloat (Fin 1), revenue = NFloat (Fin 0)\<rparr>,
             \<lparr>name = PStr ''barfi'', quantity = NFloat NaN, revenue = NFloat NaN\<rparr>,
             \<lparr>name = PStr ''jalebi'', quantity = NFloat (Fin 2), revenue = NFloat (Fin 0)\<rparr>],
          orders =
            [PDict [(''items'', PList
                       [PDict [(''name'', PStr ''laddu''), (''quantity'', PFloat (Fin 1))],
                        PDict [(''name'', PStr ''barfi''), (''quantity'', PFloat NaN)],
                        PDict [(''name'', PStr ''jalebi''), (''quantity'', PFloat (Fin 2))]]),
                    (''orderDate'', PStr ''2024-03-05''),
                    (''createdAt'', PStr ''2024-03-05 14:07:09'')]]\<rparr>"
    by (simp add: summary_defs place_defs runtime_defs)
  show "\<not> sorted_wrt (\<lambda>a b. num_le (quantity b) (quantity a))
       [\<lparr>name = PStr ''laddu'', quantity = NFloat (Fin 1), revenue = NFloat (Fin 0)\<rparr>,
        \<lparr>name = PStr ''barfi'', quantity = NFloat NaN, revenue = NFloat NaN\<rparr>,
        \<lparr>name = PStr ''jalebi'', quantity = NFloat (Fin 2), revenue = NFloat (Fin 0)\<rparr>]"
    by (simp add: num_le_def num_lt_def num_eq_def float_lt_def)
qed

section \<open>Properties of the mutations\<close>

lemma map_of_apply_set_other:
  "k \<notin> set (map fst payload) \<Longrightarrow> map_of (apply_set payload d) k = map_of d k"
  unfolding apply_set_def
  by (induction payload arbitrary: d) (auto simp: map_of_dict_set)

lemma map_of_apply_set:
  "distinct (map fst payload) \<Longrightarrow>
   map_of (apply_set payload d) k = (case map_of payload k of Some v \<Rightarrow> Some v | None \<Rightarrow> map_of d k)"
  unfolding apply_set_def
proof (induction payload arbitrary: d)
  case Nil
  then show ?case by simp
next
  case (Cons kv payload)
  obtain k' v' where kv: "kv = (k', v')" by (cases kv)
  have "k' \<notin> set (map fst payload)" using Cons.prems kv by simp
  from map_of_apply_set_other[OF this, unfolded apply_set_def]
  have other: "\<And>d. map_of (foldl (\<lambda>acc kv. dict_set acc (fst kv) (snd kv)) d payload) k' = map_of d k'" .
  have none: "map_of payload k' = None"
    using \<open>k' \<notin> set (map fst payload)\<close> by (simp add: map_of_eq_None_iff)
  show ?case
    using Cons.IH[of "dict_set d k' v'"] Cons.prems kv other[of "dict_set d k' v'"] none
    by (auto simp: map_of_dict_set split: option.splits)
qed

lemma distinct_dict_set: "distinct (map fst d) \<Longrightarrow> distinct (map fst (dict_set d k v))"
  by (auto simp: keys_dict_set)

lemma find_one_and_update_column:
  "k \<notin> set (map fst payload) \<Longrightarrow>
   map (\<lambda>d. map_of d k) (fst (find_one_and_update coll oid payload)) = map (\<lambda>d. map_of d k) coll"
  by (induction coll) (auto simp: map_of_apply_set_other split: prod.splits)

lemma find_one_and_update_none:
  "find_one coll oid = None \<Longrightarrow> find_one_and_update coll oid payload = (coll, None)"
  by (induction coll) (auto simp: find_one_def)

lemma find_one_and_update_some:
  "find_one coll oid = Some current \<Longrightarrow> ''_id'' \<notin> set (map fst payload) \<Longrightarrow>
   \<exists>coll'. find_one_and_update coll oid payload = (coll', Some (apply_set payload current)) \<and>
     find_one coll' oid = Some (apply_set payload current) \<and> length coll' = length coll"
proof (induction coll)
  case Nil
  then show ?case by (simp add: find_one_def)
next
  case (Cons d coll)
  show ?case
  proof (cases "has_id oid d")
    case True
    with Cons.prems have "current = d" by (simp add: find_one_def)
    moreover have "has_id oid (apply_set payload d)"
      using True Cons.prems(2) by (simp add: has_id_def map_of_apply_set_other)
    ultimately show ?thesis using True by (simp add: find_one_def)
  next
    case False
    with Cons.prems have "find_one coll oid = Some current" by (simp add: find_one_def)
    from Cons.IH[OF this Cons.prems(2)] obtain coll' where
      "find_one_and_update coll oid payload = (coll', Some (apply_set payload current))"
      "find_one coll' oid = Some (apply_set payload current)" "length coll' = length coll"
      by blast
    with False show ?thesis by (simp add: find_one_def)
  qed
qed

lemma find_one_has_id: "find_one coll oid = Some d \<Longrightarrow> has_id oid d \<and> d \<in> set coll"
  by (auto simp: find_one_def find_Some_iff)

lemma has_id_nonempty: "has_id oid d \<Longrightarrow> d \<noteq> []"
  by (auto simp: has_id_def)

lemma field_map_dest:
  "map_of field_map k = Some dest \<Longrightarrow>
   dest \<in> set [''customerName'', ''mobile'', ''total'', ''status'', ''address'', ''deliveryDate'',
               ''preference'', ''items'']"
  by (simp add: field_map_def split: if_splits)

lemma field_map_alias:
  "map_of field_map k = Some dest \<Longrightarrow>
   (k = ''contact'' \<and> dest = ''mobile'') \<or> (k = ''amount'' \<and> dest = ''total'') \<or> dest = k"
  by (simp add: field_map_def split: if_splits)

lemma field_map_dom:
  "map_of field_map k \<noteq> None \<longleftrightarrow>
   k \<in> set [''customerName'', ''contact'', ''amount'', ''status'', ''address'', ''mobile'', ''total'',
             ''deliveryDate'', ''preference'', ''items'']"
  by (simp add: field_map_def)

lemma build_payload_keys:
  "build_payload rt acc upd = Inr p \<Longrightarrow>
   set (map fst p) =
     set (map fst acc) \<union> {dest. \<exists>k \<in> set (map fst upd). map_of field_map k = Some dest}"
proof (induction rt acc upd rule: build_payload.induct)
  case (1 rt set_payload)
  then show ?case by simp
next
  case (2 rt set_payload k v rest)
  show ?case
  proof (cases "map_of field_map k")
    case None
    with 2 show ?thesis by auto
  next
    case (Some dest)
    with "2.prems" obtain v' where pv: "payload_value rt dest v = Inr v'"
      and rest: "build_payload rt (dict_set set_payload dest v') rest = Inr p"
      by (auto split: sum.splits)
    from "2.IH"(2)[OF Some pv rest] Some show ?thesis
      by (auto simp: keys_dict_set split: if_splits)
  qed
qed

lemma build_payload_distinct:
  "build_payload rt acc upd = Inr p \<Longrightarrow> distinct (map fst acc) \<Longrightarrow> distinct (map fst p)"
proof (induction rt acc upd rule: build_payload.induct)
  case (1 rt set_payload)
  then show ?case by simp
next
  case (2 rt set_payload k v rest)
  show ?case
  proof (cases "map_of field_map k")
    case None
    with 2 show ?thesis by auto
  next
    case (Some dest)
    with "2.prems" obtain v' where pv: "payload_value rt dest v = Inr v'"
      and rest: "build_payload rt (dict_set set_payload dest v') rest = Inr p"
      by (auto split: sum.splits)
    from "2.IH"(2)[OF Some pv rest] "2.prems"(2) show ?thesis
      by (simp add: distinct_dict_set)
  qed
qed

lemma build_payload_unrecognized:
  "\<forall>k \<in> set (map fst upd). map_of field_map k = None \<Longrightarrow> build_payload rt acc upd = Inr acc"
  by (induction rt acc upd rule: build_payload.induct) auto

lemma build_payload_keeps:
  "build_payload rt acc upd = Inr p \<Longrightarrow>
   \<forall>k \<in> set (map fst upd). map_of field_map k \<noteq> Some dest \<Longrightarrow>
   map_of p dest = map_of acc dest"
proof (induction rt acc upd rule: build_payload.induct)
  case (1 rt set_payload)
  then show ?case by simp
next
  case (2 rt set_payload k v rest)
  show ?case
  proof (cases "map_of field_map k")
    case None
    with 2 show ?thesis by auto
  next
    case (Some dest')
    with "2.prems" obtain v' where pv: "payload_value rt dest' v = Inr v'"
      and rest: "build_payload rt (dict_set set_payload dest' v') rest = Inr p"
      by (auto split: sum.splits)
    have "dest' \<noteq> dest" using Some "2.prems"(2) by auto
    with "2.IH"(2)[OF Some pv rest] "2.prems"(2) show ?thesis
      by (simp add: map_of_dict_set)
  qed
qed

lemma build_payload_append:
  "build_payload rt acc (pre @ post) =
     (case build_payload rt acc pre of Inl e \<Rightarrow> Inl e | Inr acc' \<Rightarrow> build_payload rt acc' post)"
  by (induction rt acc pre rule: build_payload.induct) (auto split: option.splits sum.splits)

lemma build_payload_last_wins:
  assumes "build_payload rt acc (pre @ (k, v) # post) = Inr p"
    and "map_of field_map k = Some dest"
    and "\<forall>k' \<in> set (map fst post). map_of field_map k' \<noteq> Some dest"
  shows "\<exists>v'. payload_value rt dest v = Inr v' \<and> map_of p dest = Some v'"
proof -
  from assms(1) obtain acc1 where a1: "build_payload rt acc pre = Inr acc1"
    and r1: "build_payload rt acc1 ((k, v) # post) = Inr p"
    by (auto simp: build_payload_append split: sum.splits)
  from r1 assms(2) obtain v' where pv: "payload_value rt dest v = Inr v'"
    and r2: "build_payload rt (dict_set acc1 dest v') post = Inr p"
    by (auto split: sum.splits)
  from build_payload_keeps[OF r2 assms(3)] have "map_of p dest = Some v'"
    by (simp add: map_of_dict_set)
  with pv show ?thesis by blast
qed

lemma payload_value_plain:
  "dest \<noteq> ''total'' \<Longrightarrow> dest \<noteq> ''items'' \<Longrightarrow> payload_value rt dest v = Inr v"
  by (simp add: payload_value_def)

lemma payload_value_total:
  "payload_value rt ''total'' v = Inr v' \<Longrightarrow>
   v' = (if \<not> truthy v then PFloat (Fin 0)
         else (case float_py rt v of Inr f \<Rightarrow> PFloat f | Inl e \<Rightarrow> PInt 0))"
  by (auto simp: payload_value_def coerce_number_cases split: sum.splits if_splits)

lemma update_items_dict: "update_items (PDict upd) = Inr upd"
  by (simp add: update_items_def py_or_def)

lemma update_items_falsy: "\<not> truthy updates \<Longrightarrow> update_items updates = Inr []"
  by (simp add: update_items_def py_or_def)

lemma set_keys_dict_set: "set (map fst (dict_set d k v)) = insert k (set (map fst d))"
  by (auto simp: keys_dict_set)

lemma payload_fields_split:
  "set [''customerName'', ''mobile'', ''total'', ''status'', ''address'', ''deliveryDate'',
        ''preference'', ''items'', ''updatedAt'']
   = insert ''updatedAt''
       (set [''customerName'', ''mobile'', ''total'', ''status'', ''address'', ''deliveryDate'',
             ''preference'', ''items''])"
  by (simp add: insert_commute)

lemma edit_payload_keys:
  assumes "build_payload rt [] upd = Inr p"
  shows "set (map fst (dict_set p ''updatedAt'' v)) \<subseteq>
     set [''customerName'', ''mobile'', ''total'', ''status'', ''address'', ''deliveryDate'',
          ''preference'', ''items'', ''updatedAt'']"
proof -
  have "set (map fst p) \<subseteq> set [''customerName'', ''mobile'', ''total'', ''status'', ''address'',
          ''deliveryDate'', ''preference'', ''items'']"
  proof
    fix dest
    assume "dest \<in> set (map fst p)"
    with build_payload_keys[OF assms] obtain k where "map_of field_map k = Some dest"
      by auto
    then show "dest \<in> set [''customerName'', ''mobile'', ''total'', ''status'', ''address'',
          ''deliveryDate'', ''preference'', ''items'']"
      by (rule field_map_dest)
  qed
  then show ?thesis
    unfolding set_keys_dict_set payload_fields_split by blast
qed

lemma edit_order_applies:
  assumes oid: "object_id rt order_id = Some oid" and cur: "find_one coll oid = Some current"
    and bp: "build_payload rt [] upd = Inr p" and ne: "p \<noteq> []"
  shows "\<exists>coll' d'. edit_order rt (Some coll) now order_id (PDict upd) =
                      Inr (coll', serialize_order rt d') \<and>
     find_one coll' oid = Some d' \<and> length coll' = length coll \<and>
     (\<forall>k. map_of d' k =
        (if k = ''updatedAt'' then Some (PDatetime now)
         else (case map_of p k of Some v \<Rightarrow> Some v | None \<Rightarrow> map_of current k)))"
proof -
  let ?payload = "dict_set p ''updatedAt'' (PDatetime now)"
  have keys: "''_id'' \<notin> set (map fst ?payload)"
    using edit_payload_keys[OF bp, of "PDatetime now"] by auto
  have dist: "distinct (map fst ?payload)"
    using build_payload_distinct[OF bp] by (simp add: distinct_dict_set)
  from find_one_and_update_some[OF cur keys] obtain coll' where
    fu: "find_one_and_update coll oid ?payload = (coll', Some (apply_set ?payload current))" and
    f': "find_one coll' oid = Some (apply_set ?payload current)" and
    len: "length coll' = length coll"
    by blast
  let ?d' = "apply_set ?payload current"
  have "has_id oid ?d'" using find_one_has_id[OF f'] by simp
  then have nonempty: "?d' \<noteq> []" by (rule has_id_nonempty)
  have run: "edit_order rt (Some coll) now order_id (PDict upd) = Inr (coll', serialize_order rt ?d')"
    using oid bp ne fu nonempty by (simp add: edit_order_def update_items_dict)
  have "\<forall>k. map_of ?d' k =
        (if k = ''updatedAt'' then Some (PDatetime now)
         else (case map_of p k of Some v \<Rightarrow> Some v | None \<Rightarrow> map_of current k))"
    by (simp add: map_of_apply_set[OF dist] map_of_dict_set)
  with run f' len show ?thesis by blast
qed

lemma update_order_status_column:
  assumes "update_order_status rt (Some coll) now order_id status = Inr r"
    and "k \<noteq> ''status''" and "k \<noteq> ''updatedAt''"
  shows "map (\<lambda>d. map_of d k) (fst r) = map (\<lambda>d. map_of d k) coll"
proof (cases "object_id rt order_id")
  case None
  with assms(1) show ?thesis by (auto simp: update_order_status_def)
next
  case (Some oid)
  have k: "k \<notin> set (map fst (status_payload now status))"
    using assms(2,3) by (simp add: status_payload_def)
  from assms(1) Some
  have "fst r = fst (find_one_and_update coll oid (status_payload now status))"
    by (auto simp: update_order_status_def Let_def split: prod.splits option.splits if_splits)
  then show ?thesis by (simp add: find_one_and_update_column[OF k])
qed

lemma edit_order_column:
  assumes "edit_order rt (Some coll) now order_id updates = Inr r"
    and "k \<notin> set [''customerName'', ''mobile'', ''total'', ''status'', ''address'', ''deliveryDate'',
          ''preference'', ''items'', ''updatedAt'']"
  shows "map (\<lambda>d. map_of d k) (fst r) = map (\<lambda>d. map_of d k) coll"
proof (cases "object_id rt order_id")
  case None
  with assms(1) show ?thesis by (auto simp: edit_order_def)
next
  case (Some oid)
  with assms(1) obtain upd p where u: "update_items updates = Inr upd"
    and bp: "build_payload rt [] upd = Inr p"
    by (auto simp: edit_order_def split: sum.splits)
  show ?thesis
  proof (cases "p = []")
    case True
    with assms(1) Some u bp have "fst r = coll"
      by (auto simp: edit_order_def split: option.splits if_splits)
    then show ?thesis by simp
  next
    case False
    have k: "k \<notin> set (map fst (dict_set p ''updatedAt'' (PDatetime now)))"
      using edit_payload_keys[OF bp, of "PDatetime now"] assms(2) by blast
    from assms(1) Some u bp False
    have "fst r = fst (find_one_and_update coll oid (dict_set p ''updatedAt'' (PDatetime now)))"
      by (auto simp: edit_order_def split: prod.splits option.splits if_splits)
    then show ?thesis by (simp add: find_one_and_update_column[OF k])
  qed
qed

lemma mutate_column:
  assumes "k \<notin> set [''customerName'', ''mobile'', ''total'', ''status'', ''address'', ''deliveryDate'',
          ''preference'', ''items'', ''updatedAt'']"
  shows "map (\<lambda>d. map_of d k) (mutate rt coll m) = map (\<lambda>d. map_of d k) coll"
proof (cases m)
  case (UpdateStatus now order_id status)
  show ?thesis
  proof (cases "update_order_status rt (Some coll) now order_id status")
    case (Inl e)
    with UpdateStatus show ?thesis by simp
  next
    case (Inr r)
    from update_order_status_column[OF Inr, of k] assms UpdateStatus Inr show ?thesis by simp
  qed
next
  case (EditOrder now order_id updates)
  show ?thesis
  proof (cases "edit_order rt (Some coll) now order_id updates")
    case (Inl e)
    with EditOrder show ?thesis by simp
  next
    case (Inr r)
    from edit_order_column[OF Inr assms] EditOrder Inr show ?thesis by simp
  qed
qed

lemma mutate_all_column:
  assumes "k \<notin> set [''customerName'', ''mobile'', ''total'', ''status'', ''address'', ''deliveryDate'',
          ''preference'', ''items'', ''updatedAt'']"
  shows "map (\<lambda>d. map_of d k) (mutate_all rt coll ms) = map (\<lambda>d. map_of d k) coll"
  unfolding mutate_all_def
  by (induction ms arbitrary: coll) (simp_all add: mutate_column[OF assms])

lemmas edit_defs =
  edit_order_def update_order_status_def update_items_def payload_value_def field_map_def
  find_one_def has_id_def apply_set_def project_def status_payload_def status_projection_def
  mutate_all_def serialize_order_def serialize_datetimes_def py_str_def

lemma norm_items_error:
  "norm_items rt xs = Inl e \<Longrightarrow>
   e = OverflowError \<and>
   (\<exists>d i. PDict d \<in> set xs \<and>
      (map_of d ''quantity'' = Some (PInt i) \<or> map_of d ''price'' = Some (PInt i)) \<and>
      2 ^ 53 < \<bar>i\<bar>)"
proof (induction rt xs rule: norm_items.induct)
  case (1 rt)
  then show ?case by simp
next
  case (2 rt item rest)
  show ?case
  proof (cases "coerce_field rt ''quantity'' item")
    case (Inl e')
    with "2.prems" have "coerce_field rt ''quantity'' item = Inl e" by simp
    from coerce_field_error[OF this] show ?thesis by auto
  next
    case q: (Inr itm1)
    show ?thesis
    proof (cases "coerce_field rt ''price'' itm1")
      case (Inl e')
      with "2.prems" q have p: "coerce_field rt ''price'' itm1 = Inl e" by simp
      have "map_of itm1 ''price'' = map_of item ''price''"
        by (simp add: map_of_coerce_field[OF q])
      with coerce_field_error[OF p] show ?thesis by auto
    next
      case p: (Inr itm2)
      with "2.prems" q have "norm_items rt rest = Inl e"
        by (simp split: sum.splits)
      from "2.IH"[OF q p this] show ?thesis by auto
    qed
  qed
qed (auto)

lemma payload_value_error:
  assumes "payload_value rt dest v = Inl e"
  shows "e = OverflowError \<and>
     (\<exists>i. 2 ^ 53 < \<bar>i\<bar> \<and>
        ((dest = ''total'' \<and> v = PInt i) \<or>
         (dest = ''items'' \<and>
          (\<exists>xs d. v = PList xs \<and> PDict d \<in> set xs \<and>
             (map_of d ''quantity'' = Some (PInt i) \<or> map_of d ''price'' = Some (PInt i))))))"
proof (cases "dest = ''total''")
  case True
  with assms have "coerce_number rt v = Inl e"
    by (simp add: payload_value_def split: sum.splits)
  from coerce_number_error[OF this] True show ?thesis by auto
next
  case False
  with assms obtain xs where "dest = ''items''" "v = PList xs" "norm_items rt xs = Inl e"
    by (auto simp: payload_value_def split: if_splits pyval.splits sum.splits)
  with norm_items_error[of rt xs e] show ?thesis by blast
qed

lemma build_payload_error_aux:
  "build_payload rt acc upd = Inl e \<Longrightarrow>
   e = OverflowError \<and> (\<exists>kv \<in> set upd. overflowing (fst kv) (snd kv))"
proof (induction rt acc upd rule: build_payload.induct)
  case (1 rt set_payload)
  then show ?case by simp
next
  case (2 rt set_payload k v rest)
  show ?case
  proof (cases "map_of field_map k")
    case None
    with "2.prems" have "build_payload rt set_payload rest = Inl e" by simp
    from "2.IH"(1)[OF None this] show ?thesis by simp
  next
    case (Some dest)
    show ?thesis
    proof (cases "payload_value rt dest v")
      case (Inl e')
      with "2.prems" Some have "payload_value rt dest v = Inl e" by simp
      from payload_value_error[OF this] Some have "e = OverflowError" "overflowing k v"
        unfolding overflowing_def by blast+
      then show ?thesis by simp
    next
      case (Inr v')
      with "2.prems" Some have "build_payload rt (dict_set set_payload dest v') rest = Inl e"
        by simp
      from "2.IH"(2)[OF Some Inr this] show ?thesis by simp
    qed
  qed
qed

lemma build_payload_error:
  assumes "build_payload rt acc upd = Inl e"
  shows "e = OverflowError \<and>
   (\<exists>k v i. (k, v) \<in> set upd \<and> 2 ^ 53 < \<bar>i\<bar> \<and>
      ((map_of field_map k = Some ''total'' \<and> v = PInt i) \<or>
       (map_of field_map k = Some ''items'' \<and>
        (\<exists>xs d. v = PList xs \<and> PDict d \<in> set xs \<and>
           (map_of d ''quantity'' = Some (PInt i) \<or> map_of d ''price'' = Some (PInt i))))))"
proof -
  from build_payload_error_aux[OF assms] obtain kv where
    e: "e = OverflowError" and kv: "kv \<in> set upd" and o: "overflowing (fst kv) (snd kv)"
    by blast
  obtain k v where "kv = (k, v)" by (cases kv)
  with kv o have "(k, v) \<in> set upd" "overflowing k v" by simp_all
  with e show ?thesis unfolding overflowing_def by blast
qed

lemma edit_order_raises:
  "object_id rt order_id = Some oid \<Longrightarrow> build_payload rt [] upd = Inl e \<Longrightarrow>
   edit_order rt (Some coll) now order_id (PDict upd) = Inl e"
  by (simp add: edit_order_def update_items_dict)

text \<open>
  C5, as the code has it. The table maps \<open>contact\<close> to \<open>mobile\<close> and \<open>amount\<close>
  to \<open>total\<close>, maps each of \<open>customerName\<close>, \<open>status\<close>, \<open>address\<close>,
  \<open>mobile\<close>, \<open>total\<close>, \<open>deliveryDate\<close>, \<open>preference\<close>, \<open>items\<close> to
  itself, and knows no other key. The keys of the set payload are exactly the stored
  names of the recognised keys of the updates, so every other key is dropped. The value
  set under a stored name other than \<open>items\<close> is the value of the last update that
  resolves to it, unchanged unless the name is \<open>total\<close>; a \<open>total\<close> is the float
  \<open>0.0\<close> when the value is falsy, the value as a float when \<open>float()\<close> converts it,
  and the integer \<open>0\<close> when \<open>float()\<close> raises \<open>ValueError\<close> or \<open>TypeError\<close>.
  Building the payload raises nothing but the \<open>OverflowError\<close> of an integer beyond
  \<open>2^53\<close> under \<open>total\<close> or in the \<open>quantity\<close> or \<open>price\<close> of a listed item,
  and \<open>edit_order\<close> then raises it. For a valid identifier that matches a document
  and a non-empty payload, the stored document afterwards has the payload's fields set,
  \<open>updatedAt\<close> set to the clock (to the millisecond), and every other field,
  \<open>contact\<close> and \<open>amount\<close> among them, as it was before. The updates
  \<^verbatim>\<open>{"contact": "555", "amount": "12.5"}\<close> give the payload
  \<^verbatim>\<open>{"mobile": "555", "total": 12.5}\<close>.
\<close>

theorem edit_order_field_mapping:
  "map_of field_map ''contact'' = Some ''mobile'' \<and>
   map_of field_map ''amount'' = Some ''total'' \<and>
   map (map_of field_map)
     [''customerName'', ''status'', ''address'', ''mobile'', ''total'', ''deliveryDate'',
      ''preference'', ''items'']
   = map Some
     [''customerName'', ''status'', ''address'', ''mobile'', ''total'', ''deliveryDate'',
      ''preference'', ''items''] \<and>
   (map_of field_map k \<noteq> None \<longleftrightarrow>
      k \<in> set [''customerName'', ''contact'', ''amount'', ''status'', ''address'', ''mobile'',
                ''total'', ''deliveryDate'', ''preference'', ''items'']) \<and>
   (build_payload rt [] upd = Inr p \<longrightarrow>
      set (map fst p) = {dest. \<exists>k \<in> set (map fst upd). map_of field_map k = Some dest}) \<and>
   (build_payload rt [] upd = Inl e \<longrightarrow>
      e = OverflowError \<and>
      (\<exists>k v i. (k, v) \<in> set upd \<and> 2 ^ 53 < \<bar>i\<bar> \<and>
         ((map_of field_map k = Some ''total'' \<and> v = PInt i) \<or>
          (map_of field_map k = Some ''items'' \<and>
           (\<exists>xs d. v = PList xs \<and> PDict d \<in> set xs \<and>
              (map_of d ''quantity'' = Some (PInt i) \<or> map_of d ''price'' = Some (PInt i))))))) \<and>
   (build_payload rt [] (pre @ (k, v) # post) = Inr p \<and> map_of field_map k = Some dest \<and>
    dest \<noteq> ''items'' \<and> (\<forall>k' \<in> set (map fst post). map_of field_map k' \<noteq> Some dest) \<longrightarrow>
      map_of p dest =
        Some (if dest = ''total''
              then (if \<not> truthy v then PFloat (Fin 0)
                    else (case float_py rt v of Inr f \<Rightarrow> PFloat f | Inl e \<Rightarrow> PInt 0))
              else v)) \<and>
   (object_id rt order_id = Some oid \<and> build_payload rt [] upd = Inl e \<longrightarrow>
      edit_order rt (Some coll) now order_id (PDict upd) = Inl e) \<and>
   (object_id rt order_id = Some oid \<and> find_one coll oid = Some current \<and>
    build_payload rt [] upd = Inr p \<and> p \<noteq> [] \<longrightarrow>
      (\<exists>coll' d' t. edit_order rt (Some coll) now order_id (PDict upd) =
                     Inr (coll', serialize_order rt d') \<and>
         find_one coll' oid = Some d' \<and>
         (\<forall>k. k \<noteq> ''updatedAt'' \<longrightarrow>
            map_of d' k = (case map_of p k of Some v \<Rightarrow> Some v | None \<Rightarrow> map_of current k)) \<and>
         map_of d' ''updatedAt'' = Some (PDatetime t) \<and>
         t\<lparr>microsecond := 0\<rparr> = now\<lparr>microsecond := 0\<rparr> \<and>
         microsecond t div 1000 = microsecond now div 1000)) \<and>
   (float_of_str rt ''12.5'' = Some (Fin (25 / 2)) \<longrightarrow>
      build_payload rt [] [(''contact'', PStr ''555''), (''amount'', PStr ''12.5'')]
      = Inr [(''mobile'', PStr ''555''), (''total'', PFloat (Fin (25 / 2)))])"
proof (intro conjI impI)
  show "map_of field_map ''contact'' = Some ''mobile''"
    "map_of field_map ''amount'' = Some ''total''"
    by (simp_all add: field_map_def)
  show "map (map_of field_map)
     [''customerName'', ''status'', ''address'', ''mobile'', ''total'', ''deliveryDate'',
      ''preference'', ''items'']
   = map Some
     [''customerName'', ''status'', ''address'', ''mobile'', ''total'', ''deliveryDate'',
      ''preference'', ''items'']"
    by (simp add: field_map_def)
  show "map_of field_map k \<noteq> None \<longleftrightarrow>
      k \<in> set [''customerName'', ''contact'', ''amount'', ''status'', ''address'', ''mobile'',
                ''total'', ''deliveryDate'', ''preference'', ''items'']"
    by (rule field_map_dom)
next
  assume "build_payload rt [] upd = Inr p"
  from build_payload_keys[OF this]
  show "set (map fst p) = {dest. \<exists>k \<in> set (map fst upd). map_of field_map k = Some dest}"
    by simp
next
  assume "build_payload rt [] upd = Inl e"
  from build_payload_error[OF this]
  show "e = OverflowError"
    "\<exists>k v i. (k, v) \<in> set upd \<and> 2 ^ 53 < \<bar>i\<bar> \<and>
         ((map_of field_map k = Some ''total'' \<and> v = PInt i) \<or>
          (map_of field_map k = Some ''items'' \<and>
           (\<exists>xs d. v = PList xs \<and> PDict d \<in> set xs \<and>
              (map_of d ''quantity'' = Some (PInt i) \<or> map_of d ''price'' = Some (PInt i)))))"
    by simp_all
next
  assume a: "build_payload rt [] (pre @ (k, v) # post) = Inr p \<and> map_of field_map k = Some dest \<and>
    dest \<noteq> ''items'' \<and> (\<forall>k' \<in> set (map fst post). map_of field_map k' \<noteq> Some dest)"
  then have bp: "build_payload rt [] (pre @ (k, v) # post) = Inr p"
    and fm: "map_of field_map k = Some dest" and ni: "dest \<noteq> ''items''"
    and last: "\<forall>k' \<in> set (map fst post). map_of field_map k' \<noteq> Some dest"
    by simp_all
  from build_payload_last_wins[OF bp fm last] obtain v' where
    pv: "payload_value rt dest v = Inr v'" and m: "map_of p dest = Some v'"
    by blast
  show "map_of p dest =
        Some (if dest = ''total''
              then (if \<not> truthy v then PFloat (Fin 0)
                    else (case float_py rt v of Inr f \<Rightarrow> PFloat f | Inl e \<Rightarrow> PInt 0))
              else v)"
  proof (cases "dest = ''total''")
    case True
    with pv have "payload_value rt ''total'' v = Inr v'" by simp
    from payload_value_total[OF this] m True show ?thesis by simp
  next
    case False
    with pv ni have "v' = v" by (simp add: payload_value_plain)
    with m False show ?thesis by simp
  qed
next
  assume "object_id rt order_id = Some oid \<and> build_payload rt [] upd = Inl e"
  then show "edit_order rt (Some coll) now order_id (PDict upd) = Inl e"
    by (simp add: edit_order_raises)
next
  assume "object_id rt order_id = Some oid \<and> find_one coll oid = Some current \<and>
    build_payload rt [] upd = Inr p \<and> p \<noteq> []"
  then have "object_id rt order_id = Some oid" "find_one coll oid = Some current"
    "build_payload rt [] upd = Inr p" "p \<noteq> []" by simp_all
  from edit_order_applies[OF this, of now] obtain coll' d' where
    run: "edit_order rt (Some coll) now order_id (PDict upd) = Inr (coll', serialize_order rt d')"
    and f: "find_one coll' oid = Some d'"
    and m: "\<forall>k. map_of d' k =
        (if k = ''updatedAt'' then Some (PDatetime now)
         else (case map_of p k of Some v \<Rightarrow> Some v | None \<Rightarrow> map_of current k))"
    by blast
  from m have "\<forall>k. k \<noteq> ''updatedAt'' \<longrightarrow>
            map_of d' k = (case map_of p k of Some v \<Rightarrow> Some v | None \<Rightarrow> map_of current k)"
    and "map_of d' ''updatedAt'' = Some (PDatetime now)"
    by simp_all
  with run f
  show "\<exists>coll' d' t. edit_order rt (Some coll) now order_id (PDict upd) =
                     Inr (coll', serialize_order rt d') \<and>
         find_one coll' oid = Some d' \<and>
         (\<forall>k. k \<noteq> ''updatedAt'' \<longrightarrow>
            map_of d' k = (case map_of p k of Some v \<Rightarrow> Some v | None \<Rightarrow> map_of current k)) \<and>
         map_of d' ''updatedAt'' = Some (PDatetime t) \<and>
         t\<lparr>microsecond := 0\<rparr> = now\<lparr>microsecond := 0\<rparr> \<and>
         microsecond t div 1000 = microsecond now div 1000"
    by blast
next
  assume "float_of_str rt ''12.5'' = Some (Fin (25 / 2))"
  then show "build_payload rt [] [(''contact'', PStr ''555''), (''amount'', PStr ''12.5'')]
      = Inr [(''mobile'', PStr ''555''), (''total'', PFloat (Fin (25 / 2)))]"
    by (simp add: field_map_def payload_value_def coerce_number_def py_or_def)
qed

theorem edit_order_field_mapping_witness:
  "edit_order exact_runtime
     (Some [[(''_id'', PObjectId example_id), (''customerName'', PStr ''Asha''),
             (''mobile'', PStr ''111''), (''orderDate'', PStr ''2024-03-05''),
             (''createdAt'', PDatetime example_now)]])
     (example_now\<lparr>hour := 15\<rparr>) example_id
     (PDict [(''contact'', PStr ''555''), (''amount'', PStr ''12.5'')])
   = Inr ([[(''_id'', PObjectId example_id), (''customerName'', PStr ''Asha''),
            (''mobile'', PStr ''555''), (''orderDate'', PStr ''2024-03-05''),
            (''createdAt'', PDatetime example_now), (''total'', PFloat (Fin (25 / 2))),
            (''updatedAt'', PDatetime (example_now\<lparr>hour := 15\<rparr>))]],
          PDict [(''_id'', PStr example_id), (''customerName'', PStr ''Asha''),
                 (''mobile'', PStr ''555''), (''orderDate'', PStr ''2024-03-05''),
                 (''createdAt'', PStr ''2024-03-05 14:07:09''), (''total'', PFloat (Fin (25 / 2))),
                 (''updatedAt'', PStr ''2024-03-05 15:07:09'')]) \<and>
   build_payload exact_runtime [] [(''contact'', PStr ''555''), (''amount'', PStr ''12.5'')]
   = Inr [(''mobile'', PStr ''555''), (''total'', PFloat (Fin (25 / 2)))] \<and>
   set (map fst [(''mobile'', PStr ''555''), (''total'', PFloat (Fin (25 / 2)))])
   = {dest. \<exists>k \<in> set (map fst [(''contact'', PStr ''555''), (''amount'', PStr ''12.5'')]).
              map_of field_map k = Some dest} \<and>
   map_of [(''mobile'', PStr ''555''), (''total'', PFloat (Fin (25 / 2)))] ''total''
   = Some (PFloat (Fin (25 / 2))) \<and>
   build_payload exact_runtime [] [(''amount'', PInt (2 ^ 1024))] = Inl OverflowError \<and>
   edit_order exact_runtime
     (Some [[(''_id'', PObjectId example_id), (''customerName'', PStr ''Asha''),
             (''mobile'', PStr ''111''), (''orderDate'', PStr ''2024-03-05''),
             (''createdAt'', PDatetime example_now)]])
     (example_now\<lparr>hour := 15\<rparr>) example_id (PDict [(''amount'', PInt (2 ^ 1024))])
   = Inl OverflowError"
proof -
  let ?doc = "[(''_id'', PObjectId example_id), (''customerName'', PStr ''Asha''),
             (''mobile'', PStr ''111''), (''orderDate'', PStr ''2024-03-05''),
             (''createdAt'', PDatetime example_now)]"
  let ?upd = "[(''contact'', PStr ''555''), (''amount'', PStr ''12.5'')]"
  let ?p = "[(''mobile'', PStr ''555''), (''total'', PFloat (Fin (25 / 2)))]"
  let ?big = "[(''amount'', PInt (2 ^ 1024))]"
  let ?now = "example_now\<lparr>hour := 15\<rparr>"
  note inst = edit_order_field_mapping [where rt = exact_runtime and upd = ?upd and p = ?p
      and pre = "[(''contact'', PStr ''555'')]" and k = "''amount''" and v = "PStr ''12.5''"
      and post = "[]" and dest = "''total''" and order_id = example_id and oid = example_id
      and coll = "[?doc]" and current = ?doc and now = ?now]
  note inst_big = edit_order_field_mapping [where rt = exact_runtime and upd = ?big
      and e = OverflowError and order_id = example_id and oid = example_id
      and coll = "[?doc]" and now = ?now]
  have parse: "float_of_str exact_runtime ''12.5'' = Some (Fin (25 / 2))"
    by (simp add: runtime_defs)
  from inst parse have bp: "build_payload exact_runtime [] ?upd = Inr ?p"
    by blast
  have oid: "object_id exact_runtime example_id = Some example_id"
    by (simp add: runtime_defs)
  have cur: "find_one [?doc] example_id = Some ?doc"
    by (simp add: find_one_def has_id_def)
  from inst bp have keys: "set (map fst ?p) =
      {dest. \<exists>k \<in> set (map fst ?upd). map_of field_map k = Some dest}"
    by blast
  have fm: "map_of field_map ''amount'' = Some ''total''"
    by (simp add: field_map_def)
  have fl: "float_py exact_runtime (PStr ''12.5'') = Inr (Fin (25 / 2))"
    using parse by simp
  from inst bp fm have total: "map_of ?p ''total'' = Some (PFloat (Fin (25 / 2)))"
    by simp
  from inst oid cur bp obtain coll' d' where
    "edit_order exact_runtime (Some [?doc]) ?now example_id (PDict ?upd)
       = Inr (coll', serialize_order exact_runtime d')"
    by blast
  have run: "edit_order exact_runtime (Some [?doc]) ?now example_id (PDict ?upd)
   = Inr ([[(''_id'', PObjectId example_id), (''customerName'', PStr ''Asha''),
            (''mobile'', PStr ''555''), (''orderDate'', PStr ''2024-03-05''),
            (''createdAt'', PDatetime example_now), (''total'', PFloat (Fin (25 / 2))),
            (''updatedAt'', PDatetime ?now)]],
          PDict [(''_id'', PStr example_id), (''customerName'', PStr ''Asha''),
                 (''mobile'', PStr ''555''), (''orderDate'', PStr ''2024-03-05''),
                 (''createdAt'', PStr ''2024-03-05 14:07:09''), (''total'', PFloat (Fin (25 / 2))),
                 (''updatedAt'', PStr ''2024-03-05 15:07:09'')])"
    by (simp add: edit_defs place_defs runtime_defs)
  have big: "build_payload exact_runtime [] ?big = Inl OverflowError"
    by (simp add: edit_defs place_defs runtime_defs)
  from inst_big oid big
  have raises: "edit_order exact_runtime (Some [?doc]) ?now example_id (PDict ?big)
      = Inl OverflowError"
    by blast
  from run bp keys total big raises show ?thesis by blast
qed

text \<open>C5 as stated fails: a \<open>total\<close> that is not numeric is stored as the integer
  \<open>0\<close>, not as a float.\<close>

theorem edit_order_field_mapping_counterexample:
  "edit_order exact_runtime
     (Some [[(''_id'', PObjectId example_id), (''customerName'', PStr ''Asha''),
             (''total'', PFloat (Fin 40)), (''orderDate'', PStr ''2024-03-05''),
             (''createdAt'', PDatetime example_now)]])
     (example_now\<lparr>hour := 15\<rparr>) example_id (PDict [(''amount'', PStr ''abc'')])
   = Inr ([[(''_id'', PObjectId example_id), (''customerName'', PStr ''Asha''),
            (''total'', PInt 0), (''orderDate'', PStr ''2024-03-05''),
            (''createdAt'', PDatetime example_now),
            (''updatedAt'', PDatetime (example_now\<lparr>hour := 15\<rparr>))]],
          PDict [(''_id'', PStr example_id), (''customerName'', PStr ''Asha''),
                 (''total'', PInt 0), (''orderDate'', PStr ''2024-03-05''),
                 (''createdAt'', PStr ''2024-03-05 14:07:09''),
                 (''updatedAt'', PStr ''2024-03-05 15:07:09'')])"
  by (simp add: edit_defs place_defs runtime_defs)

text \<open>
  C6. For a valid identifier that matches a document, when the updates are empty or
  absent or hold only unrecognised keys, \<open>edit_order\<close> returns the current document
  normalised, which is a document and not \<open>None\<close>, and leaves the collection exactly
  as it was; the result has an \<open>updatedAt\<close> field only if the stored document had one.
\<close>

theorem edit_order_nothing_to_update:
  "object_id rt order_id = Some oid \<and> find_one coll oid = Some current \<and>
   (\<not> truthy updates \<or>
    (\<exists>upd. updates = PDict upd \<and> (\<forall>k \<in> set (map fst upd). map_of field_map k = None))) \<longrightarrow>
     edit_order rt (Some coll) now order_id updates = Inr (coll, serialize_order rt current) \<and>
     (\<exists>d. serialize_order rt current = PDict d \<and> map fst d = map fst current \<and>
          (map_of d ''updatedAt'' = None \<longleftrightarrow> map_of current ''updatedAt'' = None))"
proof (intro impI)
  assume a: "object_id rt order_id = Some oid \<and> find_one coll oid = Some current \<and>
   (\<not> truthy updates \<or>
    (\<exists>upd. updates = PDict upd \<and> (\<forall>k \<in> set (map fst upd). map_of field_map k = None)))"
  then have oid: "object_id rt order_id = Some oid" and cur: "find_one coll oid = Some current"
    by simp_all
  from a have "\<exists>upd. update_items updates = Inr upd \<and> build_payload rt [] upd = Inr []"
  proof (elim conjE disjE exE)
    assume "\<not> truthy updates"
    then show ?thesis by (simp add: update_items_falsy)
  next
    fix upd
    assume "updates = PDict upd" "\<forall>k \<in> set (map fst upd). map_of field_map k = None"
    then show ?thesis by (simp add: update_items_dict build_payload_unrecognized)
  qed
  then obtain upd where u: "update_items updates = Inr upd" and bp: "build_payload rt [] upd = Inr []"
    by blast
  have ne: "current \<noteq> []"
    using find_one_has_id[OF cur] has_id_nonempty by blast
  have run: "edit_order rt (Some coll) now order_id updates = Inr (coll, serialize_order rt current)"
    using oid cur u bp ne by (simp add: edit_order_def)
  from serialize_order_fields[OF ne, of rt] obtain d where
    "serialize_order rt current = PDict d" "map fst d = map fst current"
    "\<forall>k. map_of d k =
        (if k = ''_id''
         then map_option (\<lambda>v. if v = PNone then PNone else PStr (py_str rt v)) (map_of current k)
         else if k = ''createdAt'' \<or> k = ''updatedAt''
         then map_option (\<lambda>v. case v of PDatetime t \<Rightarrow> PStr (strftime_datetime t) | _ \<Rightarrow> v)
                (map_of current k)
         else map_of current k)"
    by blast
  then have "\<exists>d. serialize_order rt current = PDict d \<and> map fst d = map fst current \<and>
          (map_of d ''updatedAt'' = None \<longleftrightarrow> map_of current ''updatedAt'' = None)"
    by auto
  with run show "edit_order rt (Some coll) now order_id updates = Inr (coll, serialize_order rt current) \<and>
     (\<exists>d. serialize_order rt current = PDict d \<and> map fst d = map fst current \<and>
          (map_of d ''updatedAt'' = None \<longleftrightarrow> map_of current ''updatedAt'' = None))"
    by blast
qed

theorem edit_order_nothing_to_update_witness:
  "edit_order exact_runtime
     (Some [[(''_id'', PObjectId example_id), (''customerName'', PStr ''Asha''),
             (''orderDate'', PStr ''2024-03-05''), (''createdAt'', PDatetime example_now)]])
     (example_now\<lparr>hour := 15\<rparr>) example_id (PDict [(''unknownField'', PInt 1)])
   = Inr ([[(''_id'', PObjectId example_id), (''customerName'', PStr ''Asha''),
            (''orderDate'', PStr ''2024-03-05''), (''createdAt'', PDatetime example_now)]],
          PDict [(''_id'', PStr example_id), (''customerName'', PStr ''Asha''),
                 (''orderDate'', PStr ''2024-03-05''),
                 (''createdAt'', PStr ''2024-03-05 14:07:09'')])"
proof -
  let ?doc = "[(''_id'', PObjectId example_id), (''customerName'', PStr ''Asha''),
             (''orderDate'', PStr ''2024-03-05''), (''createdAt'', PDatetime example_now)]"
  let ?upd = "[(''unknownField'', PInt 1)]"
  have oid: "object_id exact_runtime example_id = Some example_id"
    by (simp add: runtime_defs)
  have cur: "find_one [?doc] example_id = Some ?doc"
    by (simp add: find_one_def has_id_def)
  have unk: "\<exists>upd. PDict ?upd = PDict upd \<and> (\<forall>k \<in> set (map fst upd). map_of field_map k = None)"
    by (simp add: field_map_def)
  from edit_order_nothing_to_update [where rt = exact_runtime and order_id = example_id
      and oid = example_id and coll = "[?doc]" and current = ?doc and updates = "PDict ?upd"
      and now = "example_now\<lparr>hour := 15\<rparr>"] oid cur unk
  have "edit_order exact_runtime (Some [?doc]) (example_now\<lparr>hour := 15\<rparr>) example_id (PDict ?upd)
        = Inr ([?doc], serialize_order exact_runtime ?doc)"
    by blast
  moreover have "serialize_order exact_runtime ?doc =
      PDict [(''_id'', PStr example_id), (''customerName'', PStr ''Asha''),
             (''orderDate'', PStr ''2024-03-05''), (''createdAt'', PStr ''2024-03-05 14:07:09'')]"
    by (simp add: edit_defs place_defs)
  ultimately show ?thesis by simp
qed

text \<open>
  C7. When the identifier string does not parse, \<open>update_order_status\<close> returns
  \<open>None\<close> and raises nothing; when it parses and no document has that identifier, it
  returns \<open>None\<close> as well. In both cases the collection is unchanged.
\<close>

theorem update_order_status_not_found:
  "(object_id rt order_id = None \<longrightarrow>
      update_order_status rt (Some coll) now order_id status = Inr (coll, PNone)) \<and>
   (object_id rt order_id = Some oid \<and> find_one coll oid = None \<longrightarrow>
      update_order_status rt (Some coll) now order_id status = Inr (coll, PNone))"
  by (simp add: update_order_status_def find_one_and_update_none)

theorem update_order_status_not_found_witness:
  "update_order_status exact_runtime
     (Some [[(''_id'', PObjectId example_id), (''customerName'', PStr ''Asha'')]])
     example_now ''not-an-id'' (PStr ''delivered'')
   = Inr ([[(''_id'', PObjectId example_id), (''customerName'', PStr ''Asha'')]], PNone) \<and>
   update_order_status exact_runtime
     (Some [[(''_id'', PObjectId example_id), (''customerName'', PStr ''Asha'')]])
     example_now ''75f0a1b2c3d4e5f6a7b8c9d0'' (PStr ''delivered'')
   = Inr ([[(''_id'', PObjectId example_id), (''customerName'', PStr ''Asha'')]], PNone)"
proof -
  let ?coll = "[[(''_id'', PObjectId example_id), (''customerName'', PStr ''Asha'')]]"
  have bad: "object_id exact_runtime ''not-an-id'' = None"
    by (simp add: runtime_defs)
  have good: "object_id exact_runtime ''75f0a1b2c3d4e5f6a7b8c9d0'' = Some ''75f0a1b2c3d4e5f6a7b8c9d0''"
    by (simp add: runtime_defs)
  have miss: "find_one ?coll ''75f0a1b2c3d4e5f6a7b8c9d0'' = None"
    by (simp add: find_one_def has_id_def)
  from update_order_status_not_found [where rt = exact_runtime and order_id = "''not-an-id''"
      and coll = ?coll and now = example_now and status = "PStr ''delivered''"] bad
  have one: "update_order_status exact_runtime (Some ?coll) example_now ''not-an-id''
      (PStr ''delivered'') = Inr (?coll, PNone)"
    by blast
  from update_order_status_not_found [where rt = exact_runtime
      and order_id = "''75f0a1b2c3d4e5f6a7b8c9d0''" and coll = ?coll and now = example_now
      and status = "PStr ''delivered''" and oid = "''75f0a1b2c3d4e5f6a7b8c9d0''"] good miss
  have two: "update_order_status exact_runtime (Some ?coll) example_now
      ''75f0a1b2c3d4e5f6a7b8c9d0'' (PStr ''delivered'') = Inr (?coll, PNone)"
    by blast
  from one two show ?thesis by blast
qed

text \<open>
  C10. Neither the payload of \<open>update_order_status\<close> nor a payload built by
  \<open>edit_order\<close> has the key \<open>orderDate\<close> or \<open>createdAt\<close>. After any sequence of
  the two operations the collection holds the same documents in the same positions, each
  with the \<open>orderDate\<close>, \<open>createdAt\<close> and \<open>_id\<close> it had before.
\<close>

theorem mutations_keep_creation_fields:
  "''orderDate'' \<notin> set (map fst (status_payload now status)) \<and>
   ''createdAt'' \<notin> set (map fst (status_payload now status)) \<and>
   (build_payload rt [] upd = Inr p \<longrightarrow>
      ''orderDate'' \<notin> set (map fst (dict_set p ''updatedAt'' (PDatetime now))) \<and>
      ''createdAt'' \<notin> set (map fst (dict_set p ''updatedAt'' (PDatetime now)))) \<and>
   map (\<lambda>d. map_of d ''orderDate'') (mutate_all rt coll ms) = map (\<lambda>d. map_of d ''orderDate'') coll \<and>
   map (\<lambda>d. map_of d ''createdAt'') (mutate_all rt coll ms) = map (\<lambda>d. map_of d ''createdAt'') coll \<and>
   map (\<lambda>d. map_of d ''_id'') (mutate_all rt coll ms) = map (\<lambda>d. map_of d ''_id'') coll"
proof (intro conjI impI)
  show "''orderDate'' \<notin> set (map fst (status_payload now status))"
    "''createdAt'' \<notin> set (map fst (status_payload now status))"
    by (simp_all add: status_payload_def)
next
  assume bp: "build_payload rt [] upd = Inr p"
  from edit_payload_keys[OF bp, of "PDatetime now"]
  show "''orderDate'' \<notin> set (map fst (dict_set p ''updatedAt'' (PDatetime now)))"
    "''createdAt'' \<notin> set (map fst (dict_set p ''updatedAt'' (PDatetime now)))"
    by auto
next
  show "map (\<lambda>d. map_of d ''orderDate'') (mutate_all rt coll ms) = map (\<lambda>d. map_of d ''orderDate'') coll"
    by (rule mutate_all_column) simp
  show "map (\<lambda>d. map_of d ''createdAt'') (mutate_all rt coll ms) = map (\<lambda>d. map_of d ''createdAt'') coll"
    by (rule mutate_all_column) simp
  show "map (\<lambda>d. map_of d ''_id'') (mutate_all rt coll ms) = map (\<lambda>d. map_of d ''_id'') coll"
    by (rule mutate_all_column) simp
qed

theorem mutations_keep_creation_fields_witness:
  "build_payload exact_runtime []
     [(''orderDate'', PStr ''1999-01-01''), (''createdAt'', PStr ''never''),
      (''status'', PStr ''packed'')]
   = Inr [(''status'', PStr ''packed'')] \<and>
   ''orderDate'' \<notin> set (map fst (dict_set [(''status'', PStr ''packed'')] ''updatedAt''
                                  (PDatetime (example_now\<lparr>hour := 15\<rparr>)))) \<and>
   mutate_all exact_runtime
     [[(''_id'', PObjectId example_id), (''customerName'', PStr ''Asha''),
       (''orderDate'', PStr ''2024-03-05''), (''createdAt'', PDatetime example_now)]]
     [EditOrder (example_now\<lparr>hour := 15\<rparr>) example_id
        (PDict [(''orderDate'', PStr ''1999-01-01''), (''createdAt'', PStr ''never''),
                (''status'', PStr ''packed'')]),
      UpdateStatus (example_now\<lparr>hour := 16\<rparr>) example_id (PStr ''delivered'')]
   = [[(''_id'', PObjectId example_id), (''customerName'', PStr ''Asha''),
       (''orderDate'', PStr ''2024-03-05''), (''createdAt'', PDatetime example_now),
       (''status'', PStr ''delivered''),
       (''updatedAt'', PDatetime (example_now\<lparr>hour := 16\<rparr>))]]"
proof -
  let ?upd = "[(''orderDate'', PStr ''1999-01-01''), (''createdAt'', PStr ''never''),
      (''status'', PStr ''packed'')]"
  have bp: "build_payload exact_runtime [] ?upd = Inr [(''status'', PStr ''packed'')]"
    by (simp add: edit_defs)
  from mutations_keep_creation_fields [where rt = exact_runtime and upd = ?upd
      and p = "[(''status'', PStr ''packed'')]" and now = "example_now\<lparr>hour := 15\<rparr>"] bp
  have keys: "''orderDate'' \<notin> set (map fst (dict_set [(''status'', PStr ''packed'')] ''updatedAt''
                                  (PDatetime (example_now\<lparr>hour := 15\<rparr>))))"
    by blast
  have run: "mutate_all exact_runtime
     [[(''_id'', PObjectId example_id), (''customerName'', PStr ''Asha''),
       (''orderDate'', PStr ''2024-03-05''), (''createdAt'', PDatetime example_now)]]
     [EditOrder (example_now\<lparr>hour := 15\<rparr>) example_id (PDict ?upd),
      UpdateStatus (example_now\<lparr>hour := 16\<rparr>) example_id (PStr ''delivered'')]
   = [[(''_id'', PObjectId example_id), (''customerName'', PStr ''Asha''),
       (''orderDate'', PStr ''2024-03-05''), (''createdAt'', PDatetime example_now),
       (''status'', PStr ''delivered''),
       (''updatedAt'', PDatetime (example_now\<lparr>hour := 16\<rparr>))]]"
    by (simp add: edit_defs place_defs runtime_defs)
  from bp keys run show ?thesis by blast
qed

end
